theory Spec2Isabelle
  imports
    Complex_Main
    "HOL-Library.AList"
    "HOL-Library.Char_ord"
    "HOL-Library.List_Lexorder"
    "HOL-Library.Log_Nat"
    "HOL-Library.Product_Lexorder"
    "HOL-Library.Sublist"
begin

section \<open>Workbook ingestion and aggregation pipeline (scripts/build_tables.py)\<close>

text \<open>
  Python values are embedded as follows. A \<open>str\<close> is a \<^typ>\<open>string\<close>; the characters
  are the code points below 256. \<open>None\<close> is \<^term>\<open>None\<close>. A raised exception is
  the left summand of a sum type. A \<open>dict\<close> that is only read with \<open>get\<close> is a map, a
  \<open>dict\<close> that is iterated is an association list in insertion order.
\<close>

datatype error =
    IndexError
  | AttributeError
  | ValueError
  | OverflowError
  | ZeroDivisionError

subsection \<open>String primitives of the Python runtime\<close>

text \<open>\<open>str.isspace\<close> on the code points below 256.\<close>

definition is_space :: "char \<Rightarrow> bool" where
  "is_space c = (of_char c \<in> {9::int, 10, 11, 12, 13, 28, 29, 30, 31, 32, 133, 160})"

definition py_strip :: "string \<Rightarrow> string" where
  "py_strip s = rev (dropWhile is_space (rev (dropWhile is_space s)))"

text \<open>
  The whitespace that \<open>int\<close> and \<open>float\<close> ignore around a number: unlike \<open>str.strip\<close>,
  not the separators 28 to 31.
\<close>

definition is_num_space :: "char \<Rightarrow> bool" where
  "is_num_space c = (of_char c \<in> {9::int, 10, 11, 12, 13, 32, 133, 160})"

definition num_strip :: "string \<Rightarrow> string" where
  "num_strip s = rev (dropWhile is_num_space (rev (dropWhile is_num_space s)))"

text \<open>\<open>str.split()\<close> without argument: the maximal runs of non-whitespace characters.\<close>

fun split_acc :: "string \<Rightarrow> string \<Rightarrow> string list" where
  "split_acc cur [] = (if cur = [] then [] else [rev cur])"
| "split_acc cur (c # cs) =
     (if is_space c then (if cur = [] then split_acc [] cs else rev cur # split_acc [] cs)
      else split_acc (c # cur) cs)"

definition py_split :: "string \<Rightarrow> string list" where
  "py_split s = split_acc [] s"

fun py_join :: "string \<Rightarrow> string list \<Rightarrow> string" where
  "py_join sep [] = []"
| "py_join sep [x] = x"
| "py_join sep (x # y # ys) = x @ sep @ py_join sep (y # ys)"

definition is_digit :: "char \<Rightarrow> bool" where
  "is_digit c = (CHR ''0'' \<le> c \<and> c \<le> CHR ''9'')"

definition digit_val :: "char \<Rightarrow> int" where
  "digit_val c = of_char c - 48"

definition digits_val :: "string \<Rightarrow> int" where
  "digits_val ds = foldl (\<lambda>n c. n * 10 + digit_val c) 0 ds"

text \<open>
  The digit groups of a Python numeric literal: digits, with single underscores allowed
  between two digits. The result is the digits without the underscores.
\<close>

fun strip_underscores :: "char \<Rightarrow> string \<Rightarrow> string option" where
  "strip_underscores prev [] = (if prev = CHR ''_'' then None else Some [])"
| "strip_underscores prev (c # cs) =
     (if c = CHR ''_'' then
        (if is_digit prev then strip_underscores c cs else None)
      else if prev = CHR ''_'' \<and> \<not> is_digit c then None
      else map_option ((#) c) (strip_underscores c cs))"

text \<open>
  \<open>int(s)\<close> for a \<open>str\<close> in base 10: surrounding whitespace is ignored, one sign is
  allowed, the rest is a non-empty digit group of at most 4300 digits (the default
  limit of the interpreter, which counts neither sign nor underscores). \<^term>\<open>None\<close>
  stands for \<open>ValueError\<close>.
\<close>

definition py_int :: "string \<Rightarrow> int option" where
  "py_int s =
     (case strip_underscores (CHR 0x00) (num_strip s) of
        None \<Rightarrow> None
      | Some t \<Rightarrow>
          (let (neg, body) =
                 (case t of
                    c # cs \<Rightarrow> if c = CHR ''-'' then (True, cs)
                              else if c = CHR ''+'' then (False, cs) else (False, t)
                  | [] \<Rightarrow> (False, t))
           in if body \<noteq> [] \<and> list_all is_digit body \<and> int (length body) \<le> 4300
              then Some (if neg then - digits_val body else digits_val body)
              else None))"

subsection \<open>Cell grid decoder\<close>

definition col_to_idx :: "string \<Rightarrow> int" where
  "col_to_idx col = foldl (\<lambda>idx ch. idx * 26 + (of_char ch - 64)) 0 col - 1"

text \<open>
  The part of a worksheet's element tree that \<open>parse_sheet\<close> reads. A cell \<open>c\<close> has the
  attributes \<open>r\<close> and \<open>t\<close> (absent: \<^term>\<open>None\<close>), at most one relevant \<open>v\<close> child with
  its text (\<open>Some None\<close>: the element is there and has no text), and at most one
  relevant \<open>is\<close> child, given by the texts of the \<open>t\<close> elements below it.
\<close>

record xcell =
  attr_r :: "string option"
  attr_t :: "string option"
  elem_v :: "string option option"
  elem_is :: "string option list option"

type_synonym xrow = "xcell list"
type_synonym grid = "string option list list"

text \<open>\<open>xs[i]\<close> on a Python list: a negative index counts from the end.\<close>

definition py_index :: "'a list \<Rightarrow> int \<Rightarrow> error + 'a" where
  "py_index xs i =
     (if 0 \<le> i \<and> i < int (length xs) then Inr (xs ! nat i)
      else if i < 0 \<and> - int (length xs) \<le> i then Inr (xs ! nat (int (length xs) + i))
      else Inl IndexError)"

definition is_upper :: "char \<Rightarrow> bool" where
  "is_upper c = (CHR ''A'' \<le> c \<and> c \<le> CHR ''Z'')"

text \<open>The value of one cell, by its type attribute.\<close>

definition cell_value :: "string list \<Rightarrow> xcell \<Rightarrow> error + string option" where
  "cell_value shared_strings cell =
     (if attr_t cell = Some ''s'' then
        (case elem_v cell of
           Some (Some text) \<Rightarrow>
             (case py_int text of
                None \<Rightarrow> Inl ValueError
              | Some i \<Rightarrow>
                  (case py_index shared_strings i of
                     Inl e \<Rightarrow> Inl e
                   | Inr s \<Rightarrow> Inr (Some s)))
         | _ \<Rightarrow> Inr None)
      else if attr_t cell = Some ''inlineStr'' then
        (case elem_is cell of
           Some ts \<Rightarrow> Inr (Some (concat (map (\<lambda>t. case t of None \<Rightarrow> [] | Some s \<Rightarrow> s) ts)))
         | None \<Rightarrow> Inr None)
      else
        (case elem_v cell of
           Some text \<Rightarrow> Inr text
         | None \<Rightarrow> Inr None))"

text \<open>
  The loop over the cells of one row. The state is the dictionary \<open>row_values\<close> and
  \<open>max_col\<close>. \<open>re.match(r"[A-Z]+", cell_ref)\<close> is \<open>None\<close> when the reference does not
  start with an upper-case letter, and \<open>.group\<close> on it raises \<open>AttributeError\<close>.
\<close>

fun parse_cells ::
  "string list \<Rightarrow> xcell list \<Rightarrow> (int \<times> string option) list \<times> int
     \<Rightarrow> error + ((int \<times> string option) list \<times> int)" where
  "parse_cells shared_strings [] st = Inr st"
| "parse_cells shared_strings (cell # cells) (row_values, max_col) =
     (case attr_r cell of
        None \<Rightarrow> parse_cells shared_strings cells (row_values, max_col)
      | Some cell_ref \<Rightarrow>
          if cell_ref = [] then parse_cells shared_strings cells (row_values, max_col)
          else
            (let col_letters = takeWhile is_upper cell_ref in
             if col_letters = [] then Inl AttributeError
             else
               (let col_idx = col_to_idx col_letters in
                case cell_value shared_strings cell of
                  Inl e \<Rightarrow> Inl e
                | Inr v \<Rightarrow>
                    parse_cells shared_strings cells
                      (AList.update col_idx v row_values, max max_col col_idx))))"

definition dict_get :: "('k \<times> 'v option) list \<Rightarrow> 'k \<Rightarrow> 'v option" where
  "dict_get d k = (case map_of d k of None \<Rightarrow> None | Some v \<Rightarrow> v)"

fun parse_rows :: "string list \<Rightarrow> xrow list \<Rightarrow> error + grid" where
  "parse_rows shared_strings [] = Inr []"
| "parse_rows shared_strings (row # rows) =
     (case parse_cells shared_strings row ([], -1) of
        Inl e \<Rightarrow> Inl e
      | Inr (row_values, max_col) \<Rightarrow>
          (case parse_rows shared_strings rows of
             Inl e \<Rightarrow> Inl e
           | Inr rest \<Rightarrow>
               if row_values \<noteq> []
               then Inr (map (\<lambda>i. dict_get row_values (int i)) [0..<nat (max_col + 1)] # rest)
               else Inr rest))"

text \<open>
  \<open>parse_sheet\<close>, from the shared-string table and the rows of the sheet as the XML
  library returns them.
\<close>

definition parse_sheet :: "string list \<Rightarrow> xrow list \<Rightarrow> error + grid" where
  "parse_sheet shared_strings sheet = parse_rows shared_strings sheet"

subsection \<open>Record projector\<close>

definition normalize_header :: "string option \<Rightarrow> string" where
  "normalize_header v =
     (case v of None \<Rightarrow> [] | Some s \<Rightarrow> if s = [] then [] else py_join '' '' (py_split s))"

type_synonym row_dict = "string \<rightharpoonup> string option"

text \<open>The inner loop of \<open>rows_to_dicts\<close>, over \<open>enumerate(headers)\<close>.\<close>

definition project_row :: "string list \<Rightarrow> string option list \<Rightarrow> row_dict" where
  "project_row headers row =
     foldl (\<lambda>d (idx, header).
              if header = [] then d
              else d(header \<mapsto> (if idx < length row then row ! idx else None)))
       Map.empty (enumerate 0 headers)"

definition rows_to_dicts :: "grid \<Rightarrow> error + row_dict list" where
  "rows_to_dicts rows =
     (case rows of
        [] \<Rightarrow> Inl IndexError
      | first # rest \<Rightarrow> Inr (map (project_row (map normalize_header first)) rest))"

text \<open>\<open>row.get(key)\<close>: an absent key and a key that holds \<open>None\<close> both give \<open>None\<close>.\<close>

definition row_get :: "row_dict \<Rightarrow> string \<Rightarrow> string option" where
  "row_get row k = (case row k of None \<Rightarrow> None | Some v \<Rightarrow> v)"

subsection \<open>Python floats\<close>

text \<open>
  A Python \<open>float\<close> is an IEEE 754 binary64 number. A finite one is given by its exact
  rational value, so \<open>Fin\<close> is only ever applied to values that \<open>fl\<close> returns or that
  are representable; the two zeros are one value (they differ in nothing this program
  computes except the printed sign of a zero).
\<close>

datatype pyfloat = Fin rat | PInf | NInf | NaN

definition pow2 :: "int \<Rightarrow> rat" where
  "pow2 k = (if 0 \<le> k then 2 ^ nat k else 1 / 2 ^ nat (- k))"

text \<open>\<open>floor (log 2 a)\<close> for a positive rational.\<close>

definition ilog2 :: "rat \<Rightarrow> int" where
  "ilog2 a =
     (let (p, q) = quotient_of a; d = bitlen p - bitlen q
      in if pow2 d \<le> a then d else d - 1)"

definition round_half_even :: "rat \<Rightarrow> int" where
  "round_half_even x =
     (let f = \<lfloor>x\<rfloor>; d = x - of_int f
      in if d < 1 / 2 then f else if 1 / 2 < d then f + 1
         else if even f then f else f + 1)"

text \<open>
  Rounding of an exact result to binary64, to nearest with ties to even: 53 significant
  bits, the least exponent of a unit in the last place is \<open>-1074\<close>, and a result of
  magnitude \<open>2 ^ 1024\<close> or more (binary exponent above 1023) is an infinity.
\<close>

definition fl :: "rat \<Rightarrow> pyfloat" where
  "fl x =
     (if x = 0 then Fin 0
      else
        (let a = \<bar>x\<bar>; q = max (ilog2 a - 52) (- 1074);
             r = of_int (round_half_even (a / pow2 q)) * pow2 q
         in if 1024 \<le> ilog2 r then (if 0 < x then PInf else NInf)
            else Fin (if 0 < x then r else - r)))"

fun float_neg :: "pyfloat \<Rightarrow> pyfloat" where
  "float_neg (Fin a) = Fin (- a)"
| "float_neg PInf = NInf"
| "float_neg NInf = PInf"
| "float_neg NaN = NaN"

text \<open>\<open>x + y\<close> on floats.\<close>

fun float_add :: "pyfloat \<Rightarrow> pyfloat \<Rightarrow> pyfloat" where
  "float_add (Fin a) (Fin b) = fl (a + b)"
| "float_add NaN _ = NaN"
| "float_add _ NaN = NaN"
| "float_add PInf NInf = NaN"
| "float_add NInf PInf = NaN"
| "float_add PInf _ = PInf"
| "float_add NInf _ = NInf"
| "float_add _ PInf = PInf"
| "float_add _ NInf = NInf"

text \<open>The sign of a float that is not a NaN: \<open>-1\<close>, \<open>0\<close> or \<open>1\<close>.\<close>

fun float_sgn :: "pyfloat \<Rightarrow> int" where
  "float_sgn (Fin a) = (if a < 0 then - 1 else if a = 0 then 0 else 1)"
| "float_sgn PInf = 1"
| "float_sgn NInf = - 1"
| "float_sgn NaN = 0"

definition signed_inf :: "int \<Rightarrow> pyfloat" where
  "signed_inf s = (if s = 0 then NaN else if 0 < s then PInf else NInf)"

text \<open>\<open>x * y\<close> on floats.\<close>

fun float_mul :: "pyfloat \<Rightarrow> pyfloat \<Rightarrow> pyfloat" where
  "float_mul (Fin a) (Fin b) = fl (a * b)"
| "float_mul NaN _ = NaN"
| "float_mul _ NaN = NaN"
| "float_mul x y = signed_inf (float_sgn x * float_sgn y)"

text \<open>\<open>x / y\<close> on floats; a zero divisor raises.\<close>

fun float_truediv :: "pyfloat \<Rightarrow> pyfloat \<Rightarrow> error + pyfloat" where
  "float_truediv (Fin a) (Fin b) = (if b = 0 then Inl ZeroDivisionError else Inr (fl (a / b)))"
| "float_truediv NaN (Fin b) = (if b = 0 then Inl ZeroDivisionError else Inr NaN)"
| "float_truediv PInf (Fin b) =
     (if b = 0 then Inl ZeroDivisionError else Inr (if 0 < b then PInf else NInf))"
| "float_truediv NInf (Fin b) =
     (if b = 0 then Inl ZeroDivisionError else Inr (if 0 < b then NInf else PInf))"
| "float_truediv _ NaN = Inr NaN"
| "float_truediv (Fin a) _ = Inr (Fin 0)"
| "float_truediv _ _ = Inr NaN"

text \<open>\<open>x > 0\<close> and the truth value of a float.\<close>

fun float_pos :: "pyfloat \<Rightarrow> bool" where
  "float_pos (Fin a) = (0 < a)"
| "float_pos PInf = True"
| "float_pos _ = False"

fun float_truthy :: "pyfloat \<Rightarrow> bool" where
  "float_truthy (Fin a) = (a \<noteq> 0)"
| "float_truthy _ = True"

text \<open>
  \<open>round(x, 2)\<close>: the decimal with two places nearest to the exact value of \<open>x\<close>, ties
  to even, converted back to a float.
\<close>

fun py_round2 :: "pyfloat \<Rightarrow> pyfloat" where
  "py_round2 (Fin a) = fl (of_int (round_half_even (a * 100)) / 100)"
| "py_round2 x = x"

text \<open>
  \<open>float(s)\<close> for a \<open>str\<close>. Underscores are removed first (they must stand between
  digits), then surrounding whitespace. What remains is an optional sign followed by
  \<open>inf\<close>, \<open>infinity\<close> or \<open>nan\<close> in any case, or by a decimal number: digits with at
  most one point and at least one digit, and an optional exponent. \<^term>\<open>None\<close> stands
  for \<open>ValueError\<close>.
\<close>

definition ascii_lower :: "char \<Rightarrow> char" where
  "ascii_lower c = (if is_upper c then char_of (of_char c + (32::int)) else c)"

text \<open>The exponent part; \<^term>\<open>None\<close> when the text is not an exponent.\<close>

definition parse_exponent :: "string \<Rightarrow> int option" where
  "parse_exponent s =
     (case s of
        [] \<Rightarrow> Some 0
      | c # cs \<Rightarrow>
          if c = CHR ''e'' \<or> c = CHR ''E'' then
            (let (neg, ds) =
                   (case cs of
                      d # ds \<Rightarrow> if d = CHR ''-'' then (True, ds)
                                else if d = CHR ''+'' then (False, ds) else (False, cs)
                    | [] \<Rightarrow> (False, cs))
             in if ds \<noteq> [] \<and> list_all is_digit ds
                then Some (if neg then - digits_val ds else digits_val ds)
                else None)
          else None)"

definition pow10 :: "int \<Rightarrow> rat" where
  "pow10 k = (if 0 \<le> k then 10 ^ nat k else 1 / 10 ^ nat (- k))"

definition parse_decimal :: "string \<Rightarrow> rat option" where
  "parse_decimal s =
     (let ip = takeWhile is_digit s; r1 = dropWhile is_digit s;
          (fp, r2) =
            (case r1 of
               c # cs \<Rightarrow> if c = CHR ''.'' then (takeWhile is_digit cs, dropWhile is_digit cs)
                         else ([], r1)
             | [] \<Rightarrow> ([], r1))
      in if ip = [] \<and> fp = [] then None
         else
           (case parse_exponent r2 of
              None \<Rightarrow> None
            | Some e \<Rightarrow>
                Some (of_int (digits_val (ip @ fp)) * pow10 (e - int (length fp)))))"

definition parse_abs_float :: "string \<Rightarrow> pyfloat option" where
  "parse_abs_float s =
     (let l = map ascii_lower s
      in if l = ''inf'' \<or> l = ''infinity'' then Some PInf
         else if l = ''nan'' then Some NaN
         else map_option fl (parse_decimal s))"

definition py_float_str :: "string \<Rightarrow> pyfloat option" where
  "py_float_str s =
     (case strip_underscores (CHR 0x00) s of
        None \<Rightarrow> None
      | Some t \<Rightarrow>
          (case num_strip t of
             [] \<Rightarrow> None
           | c # cs \<Rightarrow>
               if c = CHR ''-'' then map_option float_neg (parse_abs_float cs)
               else if c = CHR ''+'' then parse_abs_float cs
               else parse_abs_float (c # cs)))"

text \<open>
  \<open>float(n)\<close> for an \<open>int\<close>: the nearest float, and \<open>OverflowError\<close> when that is
  beyond the largest finite float.
\<close>

definition py_float_int :: "int \<Rightarrow> error + pyfloat" where
  "py_float_int n =
     (case fl (of_int n) of
        PInf \<Rightarrow> Inl OverflowError
      | NInf \<Rightarrow> Inl OverflowError
      | f \<Rightarrow> Inr f)"

subsection \<open>Value coercion: numbers\<close>

text \<open>
  The values \<open>to_float\<close> is applied to: \<open>None\<close>, a \<open>str\<close> (a cell), and the numbers
  its \<open>float(value)\<close> branch converts (\<open>main\<close> passes the \<open>int\<close> 0 for an empty cost
  cell).
\<close>

datatype pyarg = ANone | AStr string | AInt int | AFloat pyfloat

definition remove_commas :: "string \<Rightarrow> string" where
  "remove_commas s = filter (\<lambda>c. c \<noteq> CHR '','') s"

fun to_float :: "pyarg \<Rightarrow> error + pyfloat" where
  "to_float ANone = Inr (Fin 0)"
| "to_float (AStr v) =
     (let cleaned = py_strip (remove_commas v)
      in if cleaned = [] then Inr (Fin 0)
         else (case py_float_str cleaned of
                 Some f \<Rightarrow> Inr f
               | None \<Rightarrow> Inr (Fin 0)))"
| "to_float (AInt n) = py_float_int n"
| "to_float (AFloat f) = Inr f"

subsection \<open>Value coercion: dates\<close>

text \<open>
  A \<open>datetime.date\<close> of the proleptic Gregorian calendar. Day number 1 is
  0001-01-01, the last valid day is 9999-12-31.
\<close>

record pydate =
  d_year :: int
  d_month :: int
  d_day :: int

definition is_leap :: "int \<Rightarrow> bool" where
  "is_leap y = (y mod 4 = 0 \<and> (y mod 100 \<noteq> 0 \<or> y mod 400 = 0))"

definition days_in_month :: "int \<Rightarrow> int \<Rightarrow> int" where
  "days_in_month y m =
     (if m = 2 then (if is_leap y then 29 else 28)
      else if m = 4 \<or> m = 6 \<or> m = 9 \<or> m = 11 then 30 else 31)"

definition days_before_year :: "int \<Rightarrow> int" where
  "days_before_year y = (y - 1) * 365 + (y - 1) div 4 - (y - 1) div 100 + (y - 1) div 400"

definition ymd2ord :: "int \<Rightarrow> int \<Rightarrow> int \<Rightarrow> int" where
  "ymd2ord y m d = days_before_year y + sum_list (map (days_in_month y) [1..m - 1]) + d"

definition max_ordinal :: int where
  "max_ordinal = 3652059"

fun find_month :: "int \<Rightarrow> int list \<Rightarrow> int \<Rightarrow> int \<times> int" where
  "find_month y [] n = (12, n + 1)"
| "find_month y (m # ms) n =
     (if n < days_in_month y m then (m, n + 1) else find_month y ms (n - days_in_month y m))"

text \<open>The date of a day number, by cycles of 400, 100, 4 and 1 years.\<close>

definition ord2ymd :: "int \<Rightarrow> pydate" where
  "ord2ymd ordinal =
     (let n = ordinal - 1;
          n400 = n div 146097; n = n mod 146097;
          n100 = n div 36524; n = n mod 36524;
          n4 = n div 1461; n = n mod 1461;
          n1 = n div 365; n = n mod 365;
          y = n400 * 400 + 1 + n100 * 100 + n4 * 4 + n1
      in if n1 = 4 \<or> n100 = 4 then \<lparr>d_year = y - 1, d_month = 12, d_day = 31\<rparr>
         else (let (m, d) = find_month y [1..12] n
               in \<lparr>d_year = y, d_month = m, d_day = d\<rparr>))"

definition trunc :: "rat \<Rightarrow> int" where
  "trunc x = (if 0 \<le> x then \<lfloor>x\<rfloor> else \<lceil>x\<rceil>)"

text \<open>
  \<open>timedelta(days=x).days\<close> for a float \<open>x\<close>. The whole days are converted exactly;
  the fraction of a day is multiplied, as a float, by the microseconds of a day; the
  total is rounded to a whole microsecond, ties to even, and split into days and the
  rest. More than 999999999 days either way is an \<open>OverflowError\<close>, and so is an
  infinite \<open>x\<close>; a NaN is a \<open>ValueError\<close>.
\<close>

definition us_per_day :: int where
  "us_per_day = 86400000000"

fun timedelta_days :: "pyfloat \<Rightarrow> error + int" where
  "timedelta_days NaN = Inl ValueError"
| "timedelta_days PInf = Inl OverflowError"
| "timedelta_days NInf = Inl OverflowError"
| "timedelta_days (Fin x) =
     (let intpart = trunc x; fracpart = x - of_int intpart;
          whole = of_int (intpart * us_per_day);
          us = (if fracpart = 0 then whole
                else (case fl (of_int us_per_day * fracpart) of
                        Fin p \<Rightarrow> whole + p
                      | _ \<Rightarrow> whole));
          days = round_half_even us div us_per_day
      in if 999999999 < \<bar>days\<bar> then Inl OverflowError else Inr days)"

text \<open>
  \<open>(datetime(1899, 12, 30) + timedelta(days=serial)).date()\<close>: the sum is at midnight
  plus less than a day, so its date is the base date moved by the whole days; a date
  outside the years 1 to 9999 is an \<open>OverflowError\<close>.
\<close>

definition serial_to_date :: "pyfloat \<Rightarrow> error + pydate" where
  "serial_to_date serial =
     (case timedelta_days serial of
        Inl e \<Rightarrow> Inl e
      | Inr days \<Rightarrow>
          (let ordinal = ymd2ord 1899 12 30 + days
           in if 1 \<le> ordinal \<and> ordinal \<le> max_ordinal then Inr (ord2ymd ordinal)
              else Inl OverflowError))"

text \<open>\<open>re.match(r"^-?\d+(\.\d+)?$", cleaned)\<close>, for a text without trailing newline.\<close>

definition serial_pattern :: "string \<Rightarrow> bool" where
  "serial_pattern s =
     (let t = (case s of c # cs \<Rightarrow> if c = CHR ''-'' then cs else s | [] \<Rightarrow> s);
          ip = takeWhile is_digit t; r = dropWhile is_digit t
      in ip \<noteq> [] \<and>
         (case r of
            [] \<Rightarrow> True
          | c # cs \<Rightarrow> c = CHR ''.'' \<and> cs \<noteq> [] \<and> list_all is_digit cs))"

text \<open>
  \<open>datetime.strptime\<close> for formats made of \<open>%Y\<close>, \<open>%m\<close>, \<open>%d\<close> and literal
  characters. The format is a regular expression whose directives are the
  alternatives below, tried in this order with backtracking; the first match of the
  whole format is taken, and it must end at the end of the text.
\<close>

datatype fmt_item = FY | Fm | Fd | FLit char

definition is_digit19 :: "char \<Rightarrow> bool" where
  "is_digit19 c = (CHR ''1'' \<le> c \<and> c \<le> CHR ''9'')"

fun directive_alts :: "fmt_item \<Rightarrow> string \<Rightarrow> (int \<times> string) list" where
  "directive_alts FY s =
     (case s of
        a # b # c # d # rest \<Rightarrow>
          if is_digit a \<and> is_digit b \<and> is_digit c \<and> is_digit d
          then [(digits_val [a, b, c, d], rest)] else []
      | _ \<Rightarrow> [])"
| "directive_alts Fm s =
     (case s of
        a # b # rest \<Rightarrow>
          (if a = CHR ''1'' \<and> CHR ''0'' \<le> b \<and> b \<le> CHR ''2'' then [(digits_val [a, b], rest)] else [])
          @ (if a = CHR ''0'' \<and> is_digit19 b then [(digits_val [a, b], rest)] else [])
          @ (if is_digit19 a then [(digits_val [a], b # rest)] else [])
      | [a] \<Rightarrow> if is_digit19 a then [(digits_val [a], [])] else []
      | [] \<Rightarrow> [])"
| "directive_alts Fd s =
     (case s of
        a # b # rest \<Rightarrow>
          (if a = CHR ''3'' \<and> CHR ''0'' \<le> b \<and> b \<le> CHR ''1'' then [(digits_val [a, b], rest)] else [])
          @ (if CHR ''1'' \<le> a \<and> a \<le> CHR ''2'' \<and> is_digit b then [(digits_val [a, b], rest)] else [])
          @ (if a = CHR ''0'' \<and> is_digit19 b then [(digits_val [a, b], rest)] else [])
          @ (if is_digit19 a then [(digits_val [a], b # rest)] else [])
          @ (if a = CHR '' '' \<and> is_digit19 b then [(digits_val [b], rest)] else [])
      | [a] \<Rightarrow> if is_digit19 a then [(digits_val [a], [])] else []
      | [] \<Rightarrow> [])"
| "directive_alts (FLit c) s = []"

text \<open>All matches of a format at the start of a text, best first, with the unread rest.\<close>

fun fmt_matches :: "fmt_item list \<Rightarrow> string \<Rightarrow> pydate \<Rightarrow> (pydate \<times> string) list" where
  "fmt_matches [] s acc = [(acc, s)]"
| "fmt_matches (FLit c # fmt) s acc =
     (case s of [] \<Rightarrow> [] | x # xs \<Rightarrow> if x = c then fmt_matches fmt xs acc else [])"
| "fmt_matches (FY # fmt) s acc =
     concat (map (\<lambda>(v, rest). fmt_matches fmt rest (acc\<lparr>d_year := v\<rparr>)) (directive_alts FY s))"
| "fmt_matches (Fm # fmt) s acc =
     concat (map (\<lambda>(v, rest). fmt_matches fmt rest (acc\<lparr>d_month := v\<rparr>)) (directive_alts Fm s))"
| "fmt_matches (Fd # fmt) s acc =
     concat (map (\<lambda>(v, rest). fmt_matches fmt rest (acc\<lparr>d_day := v\<rparr>)) (directive_alts Fd s))"

text \<open>\<^term>\<open>None\<close> stands for \<open>ValueError\<close>: no match, text left over, or no such day.\<close>

definition strptime :: "string \<Rightarrow> fmt_item list \<Rightarrow> pydate option" where
  "strptime s fmt =
     (case fmt_matches fmt s \<lparr>d_year = 1900, d_month = 1, d_day = 1\<rparr> of
        [] \<Rightarrow> None
      | (d, rest) # _ \<Rightarrow>
          if rest \<noteq> [] then None
          else if d_year d < 1 \<or> days_in_month (d_year d) (d_month d) < d_day d then None
          else Some d)"

definition date_formats :: "fmt_item list list" where
  "date_formats =
     [[FY, FLit CHR ''-'', Fm, FLit CHR ''-'', Fd],
      [Fm, FLit CHR ''/'', Fd, FLit CHR ''/'', FY],
      [Fd, FLit CHR ''/'', Fm, FLit CHR ''/'', FY],
      [FY, FLit CHR ''/'', Fm, FLit CHR ''/'', Fd]]"

text \<open>The loop over the fixed formats: the first format that parses wins.\<close>

fun try_formats :: "string \<Rightarrow> fmt_item list list \<Rightarrow> pydate option" where
  "try_formats cleaned [] = None"
| "try_formats cleaned (fmt # fmts) =
     (case strptime cleaned fmt of
        Some d \<Rightarrow> Some d
      | None \<Rightarrow> try_formats cleaned fmts)"

text \<open>
  The serial-date attempt of \<open>parse_date\<close>, the body of its first \<open>try\<close>: \<^term>\<open>None\<close>
  when the pattern does not match, else the date or the exception raised.
\<close>

definition serial_attempt :: "string \<Rightarrow> (error + pydate) option" where
  "serial_attempt cleaned =
     (if serial_pattern cleaned then
        (case py_float_str cleaned of
           None \<Rightarrow> Some (Inl ValueError)
         | Some serial \<Rightarrow> Some (serial_to_date serial))
      else None)"

text \<open>
  \<open>parse_date\<close> on a cell. \<open>datetime.fromisoformat(...).date()\<close> differs between
  versions of the library and is a parameter: \<^term>\<open>None\<close> is its \<open>ValueError\<close>. Only
  a \<open>ValueError\<close> of the serial attempt is caught.
\<close>

definition parse_date :: "(string \<Rightarrow> pydate option) \<Rightarrow> string option \<Rightarrow> error + pydate option" where
  "parse_date fromisoformat v =
     (case v of
        None \<Rightarrow> Inr None
      | Some s \<Rightarrow>
          (let cleaned = py_strip s
           in if cleaned = [] then Inr None
              else
                (case serial_attempt cleaned of
                   Some (Inr d) \<Rightarrow> Inr (Some d)
                 | Some (Inl ValueError) \<Rightarrow>
                     (case try_formats cleaned date_formats of
                        Some d \<Rightarrow> Inr (Some d)
                      | None \<Rightarrow> Inr (fromisoformat cleaned))
                 | Some (Inl e) \<Rightarrow> Inl e
                 | None \<Rightarrow>
                     (case try_formats cleaned date_formats of
                        Some d \<Rightarrow> Inr (Some d)
                      | None \<Rightarrow> Inr (fromisoformat cleaned)))))"

text \<open>\<open>str.lower\<close> on the code points below 256.\<close>

definition py_lower :: "char \<Rightarrow> char" where
  "py_lower c =
     (let n = (of_char c :: int)
      in if (65 \<le> n \<and> n \<le> 90) \<or> (192 \<le> n \<and> n \<le> 222 \<and> n \<noteq> 215) then char_of (n + 32) else c)"

text \<open>\<open>sub in s\<close> on strings.\<close>

fun py_contains :: "string \<Rightarrow> string \<Rightarrow> bool" where
  "py_contains sub [] = (sub = [])"
| "py_contains sub (c # cs) = (prefix sub (c # cs) \<or> py_contains sub cs)"

definition classify_customer :: "string \<Rightarrow> string" where
  "classify_customer customer_name =
     (if customer_name \<noteq> [] \<and> py_contains ''ethos'' (map py_lower customer_name)
      then ''Internal'' else ''External'')"

subsection \<open>The pipeline of \<open>main\<close>\<close>

text \<open>
  \<open>(row.get(key) or "").strip()\<close>, the argument \<open>row.get(key)\<close> of \<open>to_float\<close>, and
  the argument \<open>row.get(key) or 0\<close> of \<open>to_float\<close>.
\<close>

definition get_stripped :: "row_dict \<Rightarrow> string \<Rightarrow> string" where
  "get_stripped row k = py_strip (case row_get row k of None \<Rightarrow> [] | Some s \<Rightarrow> s)"

definition cell_arg :: "string option \<Rightarrow> pyarg" where
  "cell_arg v = (case v of None \<Rightarrow> ANone | Some s \<Rightarrow> AStr s)"

definition or_zero :: "string option \<Rightarrow> pyarg" where
  "or_zero v = (case v of None \<Rightarrow> AInt 0 | Some s \<Rightarrow> if s = [] then AInt 0 else AStr s)"

text \<open>The header \<open>Revenue (...)\<close> with three pound signs, code point 163.\<close>

definition hdr_revenue :: string where
  "hdr_revenue = ''Revenue ('' @ [CHR 0xA3, CHR 0xA3, CHR 0xA3] @ '')''"

text \<open>\<open>d.get(k, default)\<close> on a dictionary kept as an association list.\<close>

definition get_default :: "('k \<times> 'v) list \<Rightarrow> 'k \<Rightarrow> 'v \<Rightarrow> 'v" where
  "get_default d k dflt = (case map_of d k of None \<Rightarrow> dflt | Some v \<Rightarrow> v)"

text \<open>A field of a CSV row and a written file.\<close>

datatype csvval = CStr string | CFloat pyfloat | CInt int

record outfile =
  file_name :: string
  file_header :: "string list"
  file_rows :: "csvval list list"

text \<open>
  The loop that fills \<open>inventory_totals\<close>, a \<open>defaultdict(float)\<close>: its body, and the
  loop.
\<close>

definition inventory_step ::
  "row_dict \<Rightarrow> ((string \<times> string) \<times> pyfloat) list \<Rightarrow> error + ((string \<times> string) \<times> pyfloat) list" where
  "inventory_step row inventory_totals =
     (let site = get_stripped row ''Site'';
          part_no = get_stripped row ''Part No''
      in case to_float (cell_arg (row_get row ''Onhand Qty'')) of
           Inl e \<Rightarrow> Inl e
         | Inr onhand_qty \<Rightarrow>
             if site \<noteq> [] \<and> part_no \<noteq> [] then
               Inr (AList.update (site, part_no)
                      (float_add (get_default inventory_totals (site, part_no) (Fin 0)) onhand_qty)
                      inventory_totals)
             else Inr inventory_totals)"

fun inventory_loop ::
  "row_dict list \<Rightarrow> ((string \<times> string) \<times> pyfloat) list
     \<Rightarrow> error + ((string \<times> string) \<times> pyfloat) list" where
  "inventory_loop [] inventory_totals = Inr inventory_totals"
| "inventory_loop (row # rows) inventory_totals =
     (case inventory_step row inventory_totals of
        Inl e \<Rightarrow> Inl e
      | Inr totals \<Rightarrow> inventory_loop rows totals)"

definition inventory_output_rows :: "((string \<times> string) \<times> pyfloat) list \<Rightarrow> csvval list list" where
  "inventory_output_rows inventory_totals =
     map (\<lambda>((site, part), qty). [CStr site, CStr part, CFloat qty]) (sort_key fst inventory_totals)"

text \<open>
  A row of \<open>sales_filtered\<close>: the cells and the keys \<open>_parsed_year\<close> and
  \<open>_revenue_gbp\<close> that the first loop adds to the dictionary; the second loop adds
  \<open>_cost_alloc_usd\<close>. (The added keys are fields here; no cell that \<open>main\<close> reads has
  one of these names.)
\<close>

record frow =
  f_cells :: row_dict
  f_parsed_year :: int
  f_revenue_gbp :: pyfloat

record arow =
  row_cells :: row_dict
  row_parsed_year :: int
  row_revenue_gbp :: pyfloat
  row_cost_alloc_usd :: pyfloat

record pass1 =
  sales_filtered :: "frow list"
  order_revenue :: "string \<rightharpoonup> pyfloat"
  order_cost :: "string \<rightharpoonup> pyfloat"

definition pass1_init :: pass1 where
  "pass1_init = \<lparr>sales_filtered = [], order_revenue = Map.empty, order_cost = Map.empty\<rparr>"

text \<open>
  The first loop over \<open>sales\<close>: the year filter, the order totals and the order cost.
  \<open>first_pass_step\<close> is the body of the loop.
\<close>

definition first_pass_step ::
  "(string \<Rightarrow> pydate option) \<Rightarrow> row_dict \<Rightarrow> pass1 \<Rightarrow> error + pass1" where
  "first_pass_step fromiso row st =
     (case parse_date fromiso (row_get row ''Order Creation Date'') of
        Inl e \<Rightarrow> Inl e
      | Inr None \<Rightarrow> Inr st
      | Inr (Some date_value) \<Rightarrow>
          (let year = d_year date_value
           in if year < 2019 \<or> 2025 < year then Inr st
              else
                (case to_float (cell_arg (row_get row hdr_revenue)) of
                   Inl e \<Rightarrow> Inl e
                 | Inr revenue_gbp \<Rightarrow>
                     (let order_number = get_stripped row ''Sales Order Number'';
                          new_row = \<lparr>f_cells = row, f_parsed_year = year, f_revenue_gbp = revenue_gbp\<rparr>
                      in if order_number \<noteq> [] then
                           (case to_float (or_zero (row_get row ''(As Sold Cost) $'')) of
                              Inl e \<Rightarrow> Inl e
                            | Inr cost_value \<Rightarrow>
                                Inr \<lparr>sales_filtered = sales_filtered st @ [new_row],
                                     order_revenue =
                                       (order_revenue st)(order_number \<mapsto>
                                          float_add
                                            (case order_revenue st order_number of
                                               None \<Rightarrow> Fin 0 | Some t \<Rightarrow> t)
                                            revenue_gbp),
                                     order_cost =
                                       (if float_truthy cost_value \<and> order_cost st order_number = None
                                        then (order_cost st)(order_number \<mapsto> cost_value)
                                        else order_cost st)\<rparr>)
                         else Inr (st\<lparr>sales_filtered := sales_filtered st @ [new_row]\<rparr>)))))"

fun first_pass :: "(string \<Rightarrow> pydate option) \<Rightarrow> row_dict list \<Rightarrow> pass1 \<Rightarrow> error + pass1" where
  "first_pass fromiso [] st = Inr st"
| "first_pass fromiso (row # rows) st =
     (case first_pass_step fromiso row st of
        Inl e \<Rightarrow> Inl e
      | Inr st' \<Rightarrow> first_pass fromiso rows st')"

text \<open>The second loop: the cost allocated to each row of \<open>sales_filtered\<close>.\<close>

definition cost_alloc :: "pass1 \<Rightarrow> frow \<Rightarrow> error + pyfloat" where
  "cost_alloc st row =
     (let order_number = get_stripped (f_cells row) ''Sales Order Number'';
          revenue_gbp = f_revenue_gbp row;
          total_revenue = (case order_revenue st order_number of None \<Rightarrow> Fin 0 | Some t \<Rightarrow> t);
          cost_total = (case order_cost st order_number of None \<Rightarrow> Fin 0 | Some c \<Rightarrow> c)
      in if float_pos total_revenue then
           (case float_truediv revenue_gbp total_revenue of
              Inl e \<Rightarrow> Inl e
            | Inr share \<Rightarrow> Inr (float_mul cost_total share))
         else Inr (Fin 0))"

fun second_pass :: "pass1 \<Rightarrow> frow list \<Rightarrow> error + arow list" where
  "second_pass st [] = Inr []"
| "second_pass st (row # rows) =
     (case cost_alloc st row of
        Inl e \<Rightarrow> Inl e
      | Inr c \<Rightarrow>
          (case second_pass st rows of
             Inl e \<Rightarrow> Inl e
           | Inr rest \<Rightarrow>
               Inr (\<lparr>row_cells = f_cells row, row_parsed_year = f_parsed_year row,
                     row_revenue_gbp = f_revenue_gbp row, row_cost_alloc_usd = c\<rparr> # rest)))"

text \<open>The part-level groups; \<open>part_step\<close> is the body of the loop.\<close>

record part_group =
  revenue_gbp :: pyfloat
  units :: pyfloat
  customers :: "string set"
  internal_revenue_gbp :: pyfloat
  external_revenue_gbp :: pyfloat
  internal_units :: pyfloat
  external_units :: pyfloat
  internal_customers :: "string set"
  external_customers :: "string set"
  cost_alloc_usd :: pyfloat

definition new_part_group :: part_group where
  "new_part_group =
     \<lparr>revenue_gbp = Fin 0, units = Fin 0, customers = {},
      internal_revenue_gbp = Fin 0, external_revenue_gbp = Fin 0,
      internal_units = Fin 0, external_units = Fin 0,
      internal_customers = {}, external_customers = {}, cost_alloc_usd = Fin 0\<rparr>"

definition part_update :: "part_group \<Rightarrow> pyfloat \<Rightarrow> pyfloat \<Rightarrow> string \<Rightarrow> pyfloat \<Rightarrow> part_group" where
  "part_update grp revenue qty customer_name allocated =
     (let g = grp\<lparr>revenue_gbp := float_add (revenue_gbp grp) revenue,
                     units := float_add (units grp) qty,
                     customers := insert customer_name (customers grp),
                     cost_alloc_usd := float_add (cost_alloc_usd grp) allocated\<rparr>
      in if classify_customer customer_name = ''Internal'' then
           g\<lparr>internal_revenue_gbp := float_add (internal_revenue_gbp g) revenue,
             internal_units := float_add (internal_units g) qty,
             internal_customers := insert customer_name (internal_customers g)\<rparr>
         else
           g\<lparr>external_revenue_gbp := float_add (external_revenue_gbp g) revenue,
             external_units := float_add (external_units g) qty,
             external_customers := insert customer_name (external_customers g)\<rparr>)"

definition part_step ::
  "arow \<Rightarrow> ((string \<times> string) \<times> part_group) list \<Rightarrow> error + ((string \<times> string) \<times> part_group) list" where
  "part_step row part_groups =
     (let site = get_stripped (row_cells row) ''Site'';
          part_no = get_stripped (row_cells row) ''Part Number''
      in if site = [] \<or> part_no = [] then Inr part_groups
         else
           (let key = (site, part_no);
                grp = get_default part_groups key new_part_group
            in case to_float (cell_arg (row_get (row_cells row) ''Qty Shipped'')) of
                 Inl e \<Rightarrow> Inl e
               | Inr qty \<Rightarrow>
                   Inr (AList.update key
                          (part_update grp (row_revenue_gbp row) qty
                             (get_stripped (row_cells row) ''Customer Name'')
                             (row_cost_alloc_usd row))
                          part_groups)))"

fun part_loop ::
  "arow list \<Rightarrow> ((string \<times> string) \<times> part_group) list
     \<Rightarrow> error + ((string \<times> string) \<times> part_group) list" where
  "part_loop [] part_groups = Inr part_groups"
| "part_loop (row # rows) part_groups =
     (case part_step row part_groups of
        Inl e \<Rightarrow> Inl e
      | Inr groups \<Rightarrow> part_loop rows groups)"

definition part_row ::
  "((string \<times> string) \<times> pyfloat) list \<Rightarrow> (string \<times> string) \<times> part_group \<Rightarrow> csvval list" where
  "part_row inventory_totals kg =
     (case kg of
        ((site, part_no), grp) \<Rightarrow>
          (let onhand_qty = get_default inventory_totals (site, part_no) (Fin 0)
           in [CStr site,
               CStr part_no,
               CFloat (py_round2 (revenue_gbp grp)),
               CFloat (py_round2 (units grp)),
               CInt (int (card (customers grp))),
               CFloat (py_round2 (internal_revenue_gbp grp)),
               CFloat (py_round2 (external_revenue_gbp grp)),
               CFloat (py_round2 (internal_units grp)),
               CFloat (py_round2 (external_units grp)),
               CInt (int (card (internal_customers grp))),
               CInt (int (card (external_customers grp))),
               CFloat (py_round2 onhand_qty),
               CFloat (py_round2 (cost_alloc_usd grp)),
               CStr [],
               CStr []]))"

definition part_rows ::
  "((string \<times> string) \<times> pyfloat) list \<Rightarrow> ((string \<times> string) \<times> part_group) list
     \<Rightarrow> csvval list list" where
  "part_rows inventory_totals part_groups =
     map (part_row inventory_totals) (sort_key fst part_groups)"

text \<open>The customer-level groups; \<open>customer_step\<close> is the body of the loop.\<close>

record customer_group =
  c_revenue_gbp :: pyfloat
  c_units :: pyfloat
  opportunities :: "string set"
  c_cost_alloc_usd :: pyfloat

definition new_customer_group :: customer_group where
  "new_customer_group =
     \<lparr>c_revenue_gbp = Fin 0, c_units = Fin 0, opportunities = {}, c_cost_alloc_usd = Fin 0\<rparr>"

definition customer_step ::
  "arow \<Rightarrow> ((string \<times> string) \<times> customer_group) list
     \<Rightarrow> error + ((string \<times> string) \<times> customer_group) list" where
  "customer_step row customer_groups =
     (let site = get_stripped (row_cells row) ''Site'';
          customer_name = get_stripped (row_cells row) ''Customer Name''
      in if site = [] \<or> customer_name = [] then Inr customer_groups
         else
           (let key = (site, customer_name);
                grp = get_default customer_groups key new_customer_group
            in case to_float (cell_arg (row_get (row_cells row) ''Qty Shipped'')) of
                 Inl e \<Rightarrow> Inl e
               | Inr qty \<Rightarrow>
                   (let opportunity = get_stripped (row_cells row) ''Saleforce Oppurtunity''
                    in Inr (AList.update key
                              (grp\<lparr>c_revenue_gbp := float_add (c_revenue_gbp grp) (row_revenue_gbp row),
                                    c_units := float_add (c_units grp) qty,
                                    opportunities :=
                                      (if opportunity \<noteq> [] then insert opportunity (opportunities grp)
                                       else opportunities grp),
                                    c_cost_alloc_usd :=
                                      float_add (c_cost_alloc_usd grp) (row_cost_alloc_usd row)\<rparr>)
                              customer_groups))))"

fun customer_loop ::
  "arow list \<Rightarrow> ((string \<times> string) \<times> customer_group) list
     \<Rightarrow> error + ((string \<times> string) \<times> customer_group) list" where
  "customer_loop [] customer_groups = Inr customer_groups"
| "customer_loop (row # rows) customer_groups =
     (case customer_step row customer_groups of
        Inl e \<Rightarrow> Inl e
      | Inr groups \<Rightarrow> customer_loop rows groups)"

definition customer_rows :: "((string \<times> string) \<times> customer_group) list \<Rightarrow> csvval list list" where
  "customer_rows customer_groups =
     map (\<lambda>((site, customer_name), grp).
            [CStr site,
             CStr customer_name,
             CStr (classify_customer customer_name),
             CFloat (py_round2 (c_revenue_gbp grp)),
             CFloat (py_round2 (c_units grp)),
             CInt (int (card (opportunities grp))),
             CFloat (py_round2 (c_cost_alloc_usd grp)),
             CStr [],
             CStr []])
       (sort_key fst customer_groups)"

text \<open>The customer counts by site, year and part; \<open>count_step\<close> is the body of the loop.\<close>

record count_group =
  n_customers :: "string set"
  n_internal_customers :: "string set"
  n_external_customers :: "string set"

definition new_count_group :: count_group where
  "new_count_group = \<lparr>n_customers = {}, n_internal_customers = {}, n_external_customers = {}\<rparr>"

definition count_step ::
  "arow \<Rightarrow> ((string \<times> int \<times> string) \<times> count_group) list
     \<Rightarrow> ((string \<times> int \<times> string) \<times> count_group) list" where
  "count_step row customer_counts =
     (let site = get_stripped (row_cells row) ''Site'';
          part_no = get_stripped (row_cells row) ''Part Number'';
          year = row_parsed_year row;
          customer_name = get_stripped (row_cells row) ''Customer Name''
      in if site = [] \<or> part_no = [] \<or> year = 0 \<or> customer_name = [] then customer_counts
         else
           (let key = (site, year, part_no);
                grp = get_default customer_counts key new_count_group;
                g = grp\<lparr>n_customers := insert customer_name (n_customers grp)\<rparr>
            in AList.update key
                 (if classify_customer customer_name = ''Internal''
                  then g\<lparr>n_internal_customers := insert customer_name (n_internal_customers g)\<rparr>
                  else g\<lparr>n_external_customers := insert customer_name (n_external_customers g)\<rparr>)
                 customer_counts))"

fun count_loop ::
  "arow list \<Rightarrow> ((string \<times> int \<times> string) \<times> count_group) list
     \<Rightarrow> ((string \<times> int \<times> string) \<times> count_group) list" where
  "count_loop [] customer_counts = customer_counts"
| "count_loop (row # rows) customer_counts = count_loop rows (count_step row customer_counts)"

definition count_rows :: "((string \<times> int \<times> string) \<times> count_group) list \<Rightarrow> csvval list list" where
  "count_rows customer_counts =
     map (\<lambda>((site, year, part_no), grp).
            [CStr site,
             CInt year,
             CStr part_no,
             CInt (int (card (n_customers grp))),
             CInt (int (card (n_internal_customers grp))),
             CInt (int (card (n_external_customers grp)))])
       (sort_key fst customer_counts)"

definition inventory_header :: "string list" where
  "inventory_header = [''Site'', ''Part No'', ''Onhand Qty'']"

definition part_header :: "string list" where
  "part_header =
     [''Site'', ''Part Number'', ''Revenue_GBP'', ''Units'', ''Customer_Count'',
      ''Internal_Revenue_GBP'', ''External_Revenue_GBP'', ''Internal_Units'',
      ''External_Units'', ''Internal_Customer_Count'', ''External_Customer_Count'',
      ''Onhand_Qty'', ''Cost_Allocated_USD'', ''Revenue_USD'', ''Margin_USD'']"

definition customer_header :: "string list" where
  "customer_header =
     [''Site'', ''Customer Name'', ''Customer_Type'', ''Revenue_GBP'', ''Units'',
      ''Opportunity_Count'', ''Cost_Allocated_USD'', ''Revenue_USD'', ''Margin_USD'']"

definition count_header :: "string list" where
  "count_header =
     [''Site'', ''Year'', ''Part Number'', ''Customer_Count'',
      ''Internal_Customer_Count'', ''External_Customer_Count'']"

text \<open>
  \<open>main\<close> from the two lists of records on. The result is the list of the files
  written, in the order of writing, and the exception that ended the run, if any.
\<close>

definition process ::
  "(string \<Rightarrow> pydate option) \<Rightarrow> row_dict list \<Rightarrow> row_dict list \<Rightarrow> outfile list \<times> error option" where
  "process fromiso sales inventory =
     (case inventory_loop inventory [] of
        Inl e \<Rightarrow> ([], Some e)
      | Inr inventory_totals \<Rightarrow>
          (let f1 = \<lparr>file_name = ''Inventory_Normalized.csv'', file_header = inventory_header,
                     file_rows = inventory_output_rows inventory_totals\<rparr>
           in case first_pass fromiso sales pass1_init of
                Inl e \<Rightarrow> ([f1], Some e)
              | Inr st \<Rightarrow>
                  (case second_pass st (sales_filtered st) of
                     Inl e \<Rightarrow> ([f1], Some e)
                   | Inr rows \<Rightarrow>
                       (case part_loop rows [] of
                          Inl e \<Rightarrow> ([f1], Some e)
                        | Inr part_groups \<Rightarrow>
                            (let f2 = \<lparr>file_name = ''part_level_pareto.csv'',
                                       file_header = part_header,
                                       file_rows = part_rows inventory_totals part_groups\<rparr>
                             in case customer_loop rows [] of
                                  Inl e \<Rightarrow> ([f1, f2], Some e)
                                | Inr customer_groups \<Rightarrow>
                                    (let f3 = \<lparr>file_name = ''customer_level_pareto.csv'',
                                               file_header = customer_header,
                                               file_rows = customer_rows customer_groups\<rparr>;
                                         f4 = \<lparr>file_name = ''customer_counts_by_site_year_part.csv'',
                                               file_header = count_header,
                                               file_rows = count_rows (count_loop rows [])\<rparr>
                                     in ([f1, f2, f3, f4], None)))))))"

text \<open>
  \<open>main\<close> from the contents of the workbook: the shared-string table and the rows of
  the two worksheets.
\<close>

definition main ::
  "(string \<Rightarrow> pydate option) \<Rightarrow> string list \<Rightarrow> xrow list \<Rightarrow> xrow list
     \<Rightarrow> outfile list \<times> error option" where
  "main fromiso shared_strings sheet1 sheet2 =
     (case parse_sheet shared_strings sheet1 of
        Inl e \<Rightarrow> ([], Some e)
      | Inr sales_rows \<Rightarrow>
          (case parse_sheet shared_strings sheet2 of
             Inl e \<Rightarrow> ([], Some e)
           | Inr inventory_rows \<Rightarrow>
               (case rows_to_dicts sales_rows of
                  Inl e \<Rightarrow> ([], Some e)
                | Inr sales \<Rightarrow>
                    (case rows_to_dicts inventory_rows of
                       Inl e \<Rightarrow> ([], Some e)
                     | Inr inventory \<Rightarrow> process fromiso sales inventory))))"

subsection \<open>Report writer\<close>






text \<open>The key of a data row: its first two fields, or its first three.\<close>

fun row_key2 :: "csvval list \<Rightarrow> string \<times> string" where
  "row_key2 (CStr a # CStr b # _) = (a, b)"
| "row_key2 _ = ([], [])"


subsection \<open>Notions used in the statements\<close>

text \<open>\<open>to_float(row.get(key))\<close> and \<open>to_float(row.get(key) or 0)\<close>, which never raise.\<close>

definition cell_float :: "string option \<Rightarrow> pyfloat" where
  "cell_float v = (case to_float (cell_arg v) of Inr f \<Rightarrow> f | Inl _ \<Rightarrow> Fin 0)"

definition cost_float :: "string option \<Rightarrow> pyfloat" where
  "cost_float v = (case to_float (or_zero v) of Inr f \<Rightarrow> f | Inl _ \<Rightarrow> Fin 0)"

text \<open>The parsed year of a sales record, when its date parses.\<close>

definition year_of :: "(string \<Rightarrow> pydate option) \<Rightarrow> row_dict \<Rightarrow> int option" where
  "year_of fromiso row =
     (case parse_date fromiso (row_get row ''Order Creation Date'') of
        Inr (Some d) \<Rightarrow> Some (d_year d)
      | _ \<Rightarrow> None)"

definition in_window :: "(string \<Rightarrow> pydate option) \<Rightarrow> row_dict \<Rightarrow> bool" where
  "in_window fromiso row =
     (case year_of fromiso row of Some y \<Rightarrow> 2019 \<le> y \<and> y \<le> 2025 | None \<Rightarrow> False)"

text \<open>A record whose date parses to no date, or to a year outside 2019 to 2025.\<close>

definition dropped :: "(string \<Rightarrow> pydate option) \<Rightarrow> row_dict \<Rightarrow> bool" where
  "dropped fromiso row =
     (case parse_date fromiso (row_get row ''Order Creation Date'') of
        Inl _ \<Rightarrow> False
      | Inr None \<Rightarrow> True
      | Inr (Some d) \<Rightarrow> d_year d < 2019 \<or> 2025 < d_year d)"

definition order_number_of :: "row_dict \<Rightarrow> string" where
  "order_number_of row = get_stripped row ''Sales Order Number''"

definition revenue_of :: "row_dict \<Rightarrow> pyfloat" where
  "revenue_of row = cell_float (row_get row hdr_revenue)"

definition cost_of :: "row_dict \<Rightarrow> pyfloat" where
  "cost_of row = cost_float (row_get row ''(As Sold Cost) $'')"

text \<open>
  The working set of a sales sheet, the line items of an order in it, the order's
  total revenue (summed in input order, from 0.0) and the first nonzero cost among the
  line items.
\<close>

definition working_set :: "(string \<Rightarrow> pydate option) \<Rightarrow> row_dict list \<Rightarrow> row_dict list" where
  "working_set fromiso sales = filter (in_window fromiso) sales"

definition order_lines :: "(string \<Rightarrow> pydate option) \<Rightarrow> row_dict list \<Rightarrow> string \<Rightarrow> row_dict list" where
  "order_lines fromiso sales order_number =
     filter (\<lambda>r. order_number_of r = order_number) (working_set fromiso sales)"

definition order_total :: "(string \<Rightarrow> pydate option) \<Rightarrow> row_dict list \<Rightarrow> string \<Rightarrow> pyfloat" where
  "order_total fromiso sales order_number =
     (if order_number = [] then Fin 0
      else foldl float_add (Fin 0) (map revenue_of (order_lines fromiso sales order_number)))"

definition first_nonzero_cost ::
  "(string \<Rightarrow> pydate option) \<Rightarrow> row_dict list \<Rightarrow> string \<Rightarrow> pyfloat option" where
  "first_nonzero_cost fromiso sales order_number =
     (case filter (\<lambda>r. float_truthy (cost_of r)) (order_lines fromiso sales order_number) of
        [] \<Rightarrow> None
      | r # _ \<Rightarrow> Some (cost_of r))"

text \<open>The row that the first loop appends for a record, and the state after it.\<close>

definition mk_frow :: "(string \<Rightarrow> pydate option) \<Rightarrow> row_dict \<Rightarrow> frow" where
  "mk_frow fromiso row =
     \<lparr>f_cells = row,
      f_parsed_year = (case year_of fromiso row of Some y \<Rightarrow> y | None \<Rightarrow> 0),
      f_revenue_gbp = revenue_of row\<rparr>"

definition accept :: "(string \<Rightarrow> pydate option) \<Rightarrow> row_dict \<Rightarrow> pass1 \<Rightarrow> pass1" where
  "accept fromiso row st =
     (let order_number = order_number_of row
      in if order_number \<noteq> [] then
           \<lparr>sales_filtered = sales_filtered st @ [mk_frow fromiso row],
            order_revenue =
              (order_revenue st)(order_number \<mapsto>
                 float_add (case order_revenue st order_number of None \<Rightarrow> Fin 0 | Some t \<Rightarrow> t)
                   (revenue_of row)),
            order_cost =
              (if float_truthy (cost_of row) \<and> order_cost st order_number = None
               then (order_cost st)(order_number \<mapsto> cost_of row)
               else order_cost st)\<rparr>
         else st\<lparr>sales_filtered := sales_filtered st @ [mk_frow fromiso row]\<rparr>)"

text \<open>The allocated costs of the working set, in input order.\<close>

definition allocated_costs ::
  "(string \<Rightarrow> pydate option) \<Rightarrow> row_dict list \<Rightarrow> error + pyfloat list" where
  "allocated_costs fromiso sales =
     (case first_pass fromiso sales pass1_init of
        Inl e \<Rightarrow> Inl e
      | Inr st \<Rightarrow>
          (case second_pass st (sales_filtered st) of
             Inl e \<Rightarrow> Inl e
           | Inr rows \<Rightarrow> Inr (map row_cost_alloc_usd rows)))"

text \<open>The allocated cost of one row, given that the allocation does not raise.\<close>

definition alloc_of :: "pass1 \<Rightarrow> frow \<Rightarrow> pyfloat" where
  "alloc_of st row = (case cost_alloc st row of Inr c \<Rightarrow> c | Inl _ \<Rightarrow> Fin 0)"

definition mk_arow :: "pass1 \<Rightarrow> frow \<Rightarrow> arow" where
  "mk_arow st row =
     \<lparr>row_cells = f_cells row, row_parsed_year = f_parsed_year row,
      row_revenue_gbp = f_revenue_gbp row, row_cost_alloc_usd = alloc_of st row\<rparr>"

text \<open>
  The key of an inventory record, its on-hand quantity, and the total of a key: the
  quantities of the records of the key, summed in input order from 0.0.
\<close>

definition inventory_key :: "row_dict \<Rightarrow> string \<times> string" where
  "inventory_key r = (get_stripped r ''Site'', get_stripped r ''Part No'')"

definition onhand_of :: "row_dict \<Rightarrow> pyfloat" where
  "onhand_of r = cell_float (row_get r ''Onhand Qty'')"

definition inventory_total :: "row_dict list \<Rightarrow> string \<times> string \<Rightarrow> pyfloat" where
  "inventory_total inventory key =
     foldl float_add (Fin 0) (map onhand_of (filter (\<lambda>r. inventory_key r = key) inventory))"

text \<open>The key of the part-level group that a sales record falls into.\<close>

definition part_key :: "row_dict \<Rightarrow> string \<times> string" where
  "part_key r = (get_stripped r ''Site'', get_stripped r ''Part Number'')"

subsection \<open>Example records\<close>

definition sales_header :: "string option list" where
  "sales_header =
     [Some ''Order Creation Date'', Some hdr_revenue, Some ''Sales Order Number'',
      Some ''(As Sold Cost) $'', Some ''Site'', Some ''Part Number'', Some ''Qty Shipped'',
      Some ''Customer Name'']"

text \<open>The record that \<open>rows_to_dicts\<close> makes of a row under this header.\<close>

definition sales_row :: "string option list \<Rightarrow> row_dict" where
  "sales_row cells = project_row (map normalize_header sales_header) cells"

text \<open>One order with two line items of revenue 60 and 40 and order cost 10.\<close>

definition sales_60_40 :: "row_dict list" where
  "sales_60_40 =
     [sales_row [Some ''2024-03-01'', Some ''60'', Some ''SO-1'', Some ''10'', Some ''S1'', Some ''P1'', Some ''6'', Some ''Acme''],
      sales_row [Some ''2024-03-02'', Some ''40'', Some ''SO-1'', Some ''10'', Some ''S1'', Some ''P2'', Some ''4'', Some ''Acme'']]"

text \<open>One order with total revenue 0 and order cost 10.\<close>

definition sales_zero_total :: "row_dict list" where
  "sales_zero_total =
     [sales_row [Some ''2024-03-01'', Some ''0'', Some ''SO-2'', Some ''10'', Some ''S1'', Some ''P1'', Some ''6'', Some ''Acme''],
      sales_row [Some ''2024-03-02'', None, Some ''SO-2'', Some ''10'', Some ''S1'', Some ''P2'', Some ''4'', Some ''Acme'']]"

text \<open>
  A line item of 2018 with cost 5, and three line items of 2024 of one order with the
  costs 0, 7 and 9.
\<close>

definition row_of_2018 :: row_dict where
  "row_of_2018 =
     sales_row [Some ''2018-12-31'', Some ''10'', Some ''SO-3'', Some ''5'', Some ''S1'', Some ''P1'', Some ''1'', Some ''Acme'']"

definition sales_costs :: "row_dict list" where
  "sales_costs =
     [row_of_2018,
      sales_row [Some ''2024-03-01'', Some ''10'', Some '' SO-3'', Some ''0'', Some ''S1'', Some ''P1'', Some ''1'', Some ''Acme''],
      sales_row [Some ''2024-03-02'', Some ''20'', Some ''SO-3 '', Some ''7'', Some ''S1'', Some ''P1'', Some ''1'', Some ''Acme''],
      sales_row [Some ''2024-03-03'', Some ''30'', Some ''SO-3'', Some ''9'', Some ''S1'', Some ''P1'', Some ''1'', Some ''Acme'']]"

subsection \<open>Example workbook\<close>

text \<open>
  A workbook with two sales rows of one order (cost 30): revenue 100 and quantity 10
  for an internal customer, revenue 50 and quantity 5 for an external one, both for
  site S1 and part P1 and dated in March 2024 (serial dates 45352 and 45353); and one
  inventory row for S1 and P1 with 20 on hand. Texts are shared strings, numbers are
  plain cells.
\<close>

definition shared_cell :: "string \<Rightarrow> string \<Rightarrow> xcell" where
  "shared_cell ref idx = \<lparr>attr_r = Some ref, attr_t = Some ''s'', elem_v = Some (Some idx), elem_is = None\<rparr>"

definition number_cell :: "string \<Rightarrow> string \<Rightarrow> xcell" where
  "number_cell ref text = \<lparr>attr_r = Some ref, attr_t = None, elem_v = Some (Some text), elem_is = None\<rparr>"

definition ex_shared_strings :: "string list" where
  "ex_shared_strings =
     [''Site'', ''Part Number'', ''Customer Name'', ''Sales Order Number'',
      ''Order Creation Date'', hdr_revenue, ''Qty Shipped'', ''(As Sold Cost) $'',
      ''S1'', ''P1'', ''Ethos Ltd'', ''Acme'', ''SO-1'', ''Part No'', ''Onhand Qty'']"

definition ex_sales_sheet :: "xrow list" where
  "ex_sales_sheet =
     [[shared_cell ''A1'' ''0'', shared_cell ''B1'' ''1'', shared_cell ''C1'' ''2'',
       shared_cell ''D1'' ''3'', shared_cell ''E1'' ''4'', shared_cell ''F1'' ''5'',
       shared_cell ''G1'' ''6'', shared_cell ''H1'' ''7''],
      [shared_cell ''A2'' ''8'', shared_cell ''B2'' ''9'', shared_cell ''C2'' ''10'',
       shared_cell ''D2'' ''12'', number_cell ''E2'' ''45352'', number_cell ''F2'' ''100'',
       number_cell ''G2'' ''10'', number_cell ''H2'' ''30''],
      [shared_cell ''A3'' ''8'', shared_cell ''B3'' ''9'', shared_cell ''C3'' ''11'',
       shared_cell ''D3'' ''12'', number_cell ''E3'' ''45353'', number_cell ''F3'' ''50'',
       number_cell ''G3'' ''5'', number_cell ''H3'' ''30'']]"

definition ex_inventory_sheet :: "xrow list" where
  "ex_inventory_sheet =
     [[shared_cell ''A1'' ''0'', shared_cell ''B1'' ''13'', shared_cell ''C1'' ''14''],
      [shared_cell ''A2'' ''8'', shared_cell ''B2'' ''9'', number_cell ''C2'' ''20'']]"

definition ex_part_file :: outfile where
  "ex_part_file =
     \<lparr>file_name = ''part_level_pareto.csv'',
      file_header = part_header,
      file_rows =
        [[CStr ''S1'', CStr ''P1'', CFloat (Fin 150), CFloat (Fin 15), CInt 2,
          CFloat (Fin 100), CFloat (Fin 50), CFloat (Fin 10), CFloat (Fin 5), CInt 1, CInt 1,
          CFloat (Fin 20), CFloat (Fin 30), CStr [], CStr []]]\<rparr>"

definition ex_inventory_file :: outfile where
  "ex_inventory_file =
     \<lparr>file_name = ''Inventory_Normalized.csv'',
      file_header = inventory_header,
      file_rows = [[CStr ''S1'', CStr ''P1'', CFloat (Fin 20)]]\<rparr>"

definition ex_customer_file :: outfile where
  "ex_customer_file =
     \<lparr>file_name = ''customer_level_pareto.csv'',
      file_header = customer_header,
      file_rows =
        [[CStr ''S1'', CStr ''Acme'', CStr ''External'', CFloat (Fin 50), CFloat (Fin 5),
          CInt 0, CFloat (Fin 10), CStr [], CStr []],
         [CStr ''S1'', CStr ''Ethos Ltd'', CStr ''Internal'', CFloat (Fin 100), CFloat (Fin 10),
          CInt 0, CFloat (Fin 20), CStr [], CStr []]]\<rparr>"

definition ex_count_file :: outfile where
  "ex_count_file =
     \<lparr>file_name = ''customer_counts_by_site_year_part.csv'',
      file_header = count_header,
      file_rows = [[CStr ''S1'', CInt 2024, CStr ''P1'', CInt 2, CInt 1, CInt 1]]\<rparr>"

section \<open>Properties\<close>

subsection \<open>Record projector\<close>

lemma project_row_snoc:
  "project_row (hs @ [x]) row =
     (if x = [] then project_row hs row
      else (project_row hs row)(x \<mapsto> (if length hs < length row then row ! length hs else None)))"
  by (simp add: project_row_def enumerate_append_eq)

lemma project_row_rightmost:
  "h \<noteq> [] \<Longrightarrow> j < length hs \<Longrightarrow> hs ! j = h \<Longrightarrow>
   (\<forall>i. j < i \<and> i < length hs \<longrightarrow> hs ! i \<noteq> h) \<Longrightarrow>
   project_row hs row h = Some (if j < length row then row ! j else None)"
proof (induction hs rule: rev_induct)
  case Nil
  then show ?case by simp
next
  case (snoc x hs)
  show ?case
  proof (cases "j = length hs")
    case True
    with snoc.prems have "x = h" by simp
    with snoc.prems True show ?thesis by (simp add: project_row_snoc)
  next
    case False
    with snoc.prems have j: "j < length hs" by simp
    from snoc.prems j have hj: "hs ! j = h" by (simp add: nth_append)
    have later: "\<forall>i. j < i \<and> i < length hs \<longrightarrow> hs ! i \<noteq> h"
    proof (intro allI impI)
      fix i assume i: "j < i \<and> i < length hs"
      with snoc.prems(4) have "(hs @ [x]) ! i \<noteq> h" by simp
      with i show "hs ! i \<noteq> h" by (simp add: nth_append)
    qed
    from snoc.prems(4)
    have "j < length hs \<and> length hs < length (hs @ [x]) \<longrightarrow> (hs @ [x]) ! length hs \<noteq> h"
      by (rule spec)
    with j have xh: "x \<noteq> h" by simp
    from snoc.IH[OF snoc.prems(1) j hj later] xh show ?thesis
      by (simp add: project_row_snoc)
  qed
qed

text \<open>
  Claim C10. When several columns have headers that normalize to the same non-blank
  text \<open>h\<close>, every record maps \<open>h\<close> to the cell of the rightmost of these columns
  (\<open>None\<close> when the row is too short to have that cell); the cells of the earlier
  columns with this header are in no record.
\<close>

theorem rows_to_dicts_rightmost_duplicate:
  assumes "j < length first" and "normalize_header (first ! j) = h" and "h \<noteq> []"
    and "\<forall>i. j < i \<and> i < length first \<longrightarrow> normalize_header (first ! i) \<noteq> h"
    and "k < length rest"
  shows "\<exists>dicts. rows_to_dicts (first # rest) = Inr dicts \<and> length dicts = length rest \<and>
           (dicts ! k) h = Some (if j < length (rest ! k) then rest ! k ! j else None)"
proof -
  have "project_row (map normalize_header first) (rest ! k) h =
          Some (if j < length (rest ! k) then rest ! k ! j else None)"
    using assms by (intro project_row_rightmost) simp_all
  with assms(5) show ?thesis by (simp add: rows_to_dicts_def)
qed

theorem rows_to_dicts_rightmost_duplicate_witness:
  "\<exists>dicts. rows_to_dicts ([Some ''Qty'', Some ''Site'', Some '' Qty  ''] # [[Some ''1'', Some ''S1'', Some ''7'']]) = Inr dicts
     \<and> length dicts = 1 \<and> (dicts ! 0) ''Qty'' = Some (Some ''7'')"
proof -
  let ?first = "[Some ''Qty'', Some ''Site'', Some '' Qty  '']"
  let ?rest = "[[Some ''1'', Some ''S1'', Some ''7'']]"
  have 1: "(2::nat) < length ?first" by simp
  have 2: "normalize_header (?first ! 2) = ''Qty''" by code_simp
  have 3: "''Qty'' \<noteq> []" by simp
  have 4: "\<forall>i. 2 < i \<and> i < length ?first \<longrightarrow> normalize_header (?first ! i) \<noteq> ''Qty''"
  proof (intro allI impI)
    fix i :: nat
    assume "2 < i \<and> i < length ?first"
    then have False by auto
    then show "normalize_header (?first ! i) \<noteq> ''Qty''" ..
  qed
  have 5: "(0::nat) < length ?rest" by simp
  from rows_to_dicts_rightmost_duplicate[OF 1 2 3 4 5] show ?thesis by simp
qed

subsection \<open>Stages that raise\<close>

text \<open>
  Claim C9. The stages are not all total: \<open>rows_to_dicts\<close> raises \<open>IndexError\<close> on a
  sheet that decoded to no rows, and \<open>parse_sheet\<close> raises \<open>AttributeError\<close> on a cell
  whose reference does not start with an upper-case letter.
\<close>

theorem stages_fail_on_empty_sheet_and_lowercase_ref:
  "rows_to_dicts [] = Inl IndexError \<and>
   parse_sheet [] [[\<lparr>attr_r = Some ''a1'', attr_t = None, elem_v = Some (Some ''5''), elem_is = None\<rparr>]]
     = Inl AttributeError"
  by (simp add: rows_to_dicts_def parse_sheet_def is_upper_def)

text \<open>
  Claim C5. A shared-string index below zero is outside the table, and decoding does
  not fail on it: the index \<open>-1\<close> selects the last entry of the table.
\<close>

theorem negative_shared_string_index_wraps:
  "parse_sheet [''a'', ''b'']
     [[\<lparr>attr_r = Some ''A1'', attr_t = Some ''s'', elem_v = Some (Some ''-1''), elem_is = None\<rparr>]]
     = Inr [[Some ''b'']]"
  by code_simp


subsection \<open>Numeric coercion\<close>

lemma py_float_str_empty: "py_float_str [] = None"
  by (simp add: py_float_str_def num_strip_def)

lemma to_float_str: "to_float (AStr v) = Inr (case py_float_str (py_strip (remove_commas v)) of None \<Rightarrow> Fin 0 | Some f \<Rightarrow> f)"
  by (simp add: Let_def py_float_str_empty split: option.splits)


lemma py_int_examples:
  "py_int ''-1'' = Some (- 1)"
  "py_int '' +1_0 '' = Some 10"
  "py_int [CHR 0x1F, CHR ''1''] = None"
  "py_int [CHR 0xA0, CHR ''1''] = Some 1"
  "py_int ''1__0'' = None"
  "py_int ''1.0'' = None"
  by code_simp+

subsection \<open>Rounding of integers\<close>






lemma pow2_nat: "pow2 (int n) = 2 ^ n"
  by (simp add: pow2_def)




























subsection \<open>Date coercion\<close>

lemma parse_date_examples:
  "parse_date fromiso None = Inr None"
  "parse_date fromiso (Some ''   '') = Inr None"
  "parse_date fromiso (Some ''1'') = Inr (Some \<lparr>d_year = 1899, d_month = 12, d_day = 31\<rparr>)"
  "parse_date fromiso (Some ''2024-03-01'') = Inr (Some \<lparr>d_year = 2024, d_month = 3, d_day = 1\<rparr>)"
  "parse_date fromiso (Some ''03/01/2024'') = Inr (Some \<lparr>d_year = 2024, d_month = 3, d_day = 1\<rparr>)"
  "parse_date fromiso (Some ''13/01/2024'') = Inr (Some \<lparr>d_year = 2024, d_month = 1, d_day = 13\<rparr>)"
  "parse_date fromiso (Some ''2024/03/01'') = Inr (Some \<lparr>d_year = 2024, d_month = 3, d_day = 1\<rparr>)"
  "parse_date fromiso (Some ''next week'') = Inr (fromiso ''next week'')"
  by code_simp+

text \<open>
  Claim C7. \<open>parse_date\<close> is not total: a text that matches the serial pattern and
  names a day after 9999-12-31 makes the date arithmetic raise \<open>OverflowError\<close>, which
  the handler for \<open>ValueError\<close> does not catch.
\<close>

theorem parse_date_raises_on_large_serial:
  "parse_date fromiso (Some ''3000000'') = Inl OverflowError"
  by code_simp

subsection \<open>The first and the second loop over the sales records\<close>

lemma to_float_cell: "to_float (cell_arg v) = Inr (cell_float v)"
  by (cases v) (simp_all add: cell_float_def cell_arg_def to_float_str del: to_float.simps(2))

lemma py_float_int_0: "py_float_int 0 = Inr (Fin 0)"
  by (simp add: py_float_int_def fl_def)

lemma to_float_cost: "to_float (or_zero v) = Inr (cost_float v)"
  by (cases v) (simp_all add: cost_float_def or_zero_def to_float_str py_float_int_0 del: to_float.simps(2))

lemma first_pass_step_eq:
  "first_pass_step fromiso row st =
     (case parse_date fromiso (row_get row ''Order Creation Date'') of
        Inl e \<Rightarrow> Inl e
      | Inr _ \<Rightarrow> if in_window fromiso row then Inr (accept fromiso row st) else Inr st)"
  by (auto simp: first_pass_step_def in_window_def year_of_def accept_def mk_frow_def Let_def
      to_float_cell to_float_cost revenue_of_def cost_of_def order_number_of_def
      split: sum.splits option.splits)

lemma first_pass_step_dropped:
  "dropped fromiso row \<Longrightarrow> first_pass_step fromiso row st = Inr st"
  by (auto simp: first_pass_step_eq dropped_def in_window_def year_of_def split: sum.splits option.splits)

lemma first_pass_cons_dropped:
  "dropped fromiso row \<Longrightarrow> first_pass fromiso (row # rows) st = first_pass fromiso rows st"
  by (simp add: first_pass_step_dropped)

lemma first_pass_filter_dropped:
  "first_pass fromiso (filter (\<lambda>r. \<not> dropped fromiso r) sales) st = first_pass fromiso sales st"
proof (induction sales arbitrary: st)
  case Nil
  show ?case by simp
next
  case (Cons row rows)
  show ?case
  proof (cases "dropped fromiso row")
    case True
    then show ?thesis using Cons.IH by (simp add: first_pass_step_dropped)
  next
    case False
    then show ?thesis using Cons.IH by (simp split: sum.splits)
  qed
qed

lemma first_pass_Cons_Inr:
  assumes "first_pass fromiso (row # rows) st0 = Inr st"
  shows "first_pass fromiso rows (if in_window fromiso row then accept fromiso row st0 else st0) = Inr st"
  using assms by (auto simp: first_pass_step_eq split: sum.splits if_splits)

lemma accept_sales_filtered:
  "sales_filtered (accept fromiso row st) = sales_filtered st @ [mk_frow fromiso row]"
  by (simp add: accept_def Let_def)

lemma accept_order_cost:
  "order_cost (accept fromiso row st) on =
     (case order_cost st on of
        Some c \<Rightarrow> Some c
      | None \<Rightarrow> if on \<noteq> [] \<and> order_number_of row = on \<and> float_truthy (cost_of row)
                then Some (cost_of row) else None)"
  by (auto simp: accept_def Let_def split: option.splits)

lemma accept_order_revenue:
  "order_revenue (accept fromiso row st) on =
     (if on \<noteq> [] \<and> order_number_of row = on
      then Some (float_add (case order_revenue st on of None \<Rightarrow> Fin 0 | Some t \<Rightarrow> t) (revenue_of row))
      else order_revenue st on)"
  by (auto simp: accept_def Let_def)

lemma first_pass_sales_filtered:
  "first_pass fromiso sales st0 = Inr st \<Longrightarrow>
   sales_filtered st = sales_filtered st0 @ map (mk_frow fromiso) (working_set fromiso sales)"
proof (induction sales arbitrary: st0)
  case Nil
  then show ?case by (simp add: working_set_def)
next
  case (Cons row rows)
  from Cons.IH[OF first_pass_Cons_Inr[OF Cons.prems]] show ?case
    by (simp add: working_set_def accept_sales_filtered)
qed

lemma first_pass_order_cost:
  "first_pass fromiso sales st0 = Inr st \<Longrightarrow>
   order_cost st on =
     (case order_cost st0 on of
        Some c \<Rightarrow> Some c
      | None \<Rightarrow> if on = [] then None else first_nonzero_cost fromiso sales on)"
proof (induction sales arbitrary: st0)
  case Nil
  then show ?case by (simp add: first_nonzero_cost_def order_lines_def working_set_def split: option.splits)
next
  case (Cons row rows)
  from Cons.IH[OF first_pass_Cons_Inr[OF Cons.prems]] show ?case
    by (auto simp: first_nonzero_cost_def order_lines_def working_set_def accept_order_cost
        split: option.splits)
qed

lemma first_pass_order_revenue:
  "first_pass fromiso sales st0 = Inr st \<Longrightarrow>
   order_revenue st on =
     (if on = [] \<or> order_lines fromiso sales on = [] then order_revenue st0 on
      else Some (foldl float_add (case order_revenue st0 on of None \<Rightarrow> Fin 0 | Some t \<Rightarrow> t)
                   (map revenue_of (order_lines fromiso sales on))))"
proof (induction sales arbitrary: st0)
  case Nil
  then show ?case by (simp add: order_lines_def working_set_def)
next
  case (Cons row rows)
  from Cons.IH[OF first_pass_Cons_Inr[OF Cons.prems]] show ?case
    by (auto simp: order_lines_def working_set_def accept_order_revenue)
qed


lemma float_truediv_pos: "float_pos y \<Longrightarrow> \<exists>q. float_truediv x y = Inr q"
  by (cases y; cases x) auto

lemma cost_alloc_Inr: "cost_alloc st row = Inr (alloc_of st row)"
proof -
  have "\<exists>c. cost_alloc st row = Inr c"
    using float_truediv_pos[of "case order_revenue st (get_stripped (f_cells row) ''Sales Order Number'') of None \<Rightarrow> Fin 0 | Some t \<Rightarrow> t" "f_revenue_gbp row"]
    by (auto simp: cost_alloc_def Let_def split: sum.splits)
  then show ?thesis by (auto simp: alloc_of_def)
qed

lemma second_pass_eq: "second_pass st rows = Inr (map (mk_arow st) rows)"
  by (induction rows) (simp_all add: cost_alloc_Inr mk_arow_def)

lemma first_pass_total_revenue:
  assumes "first_pass fromiso sales pass1_init = Inr st"
  shows "(case order_revenue st on of None \<Rightarrow> Fin 0 | Some t \<Rightarrow> t) = order_total fromiso sales on"
  using first_pass_order_revenue[OF assms, of on]
  by (auto simp: order_total_def pass1_init_def)

lemma alloc_of_working_row:
  assumes "first_pass fromiso sales pass1_init = Inr st"
  shows "alloc_of st (mk_frow fromiso r) =
     (let total = order_total fromiso sales (order_number_of r);
          cost = (case order_cost st (order_number_of r) of None \<Rightarrow> Fin 0 | Some c \<Rightarrow> c)
      in if float_pos total
         then float_mul cost (case float_truediv (revenue_of r) total of Inr q \<Rightarrow> q | Inl _ \<Rightarrow> NaN)
         else Fin 0)"
proof -
  have "cost_alloc st (mk_frow fromiso r) = Inr (alloc_of st (mk_frow fromiso r))"
    by (rule cost_alloc_Inr)
  then show ?thesis
    using first_pass_total_revenue[OF assms, of "order_number_of r"]
    by (auto simp: cost_alloc_def mk_frow_def order_number_of_def Let_def split: sum.splits if_splits)
qed

lemma allocation_examples:
  "allocated_costs (\<lambda>_. None) sales_60_40 = Inr [Fin 6, Fin 4]"
  "float_add (Fin 6) (Fin 4) = Fin 10"
  "allocated_costs (\<lambda>_. None) sales_zero_total = Inr [Fin 0, Fin 0]"
  by code_simp+

text \<open>
  Claim C1. When the first loop completes, the second loop returns one row for each
  record of the working set, in order, and the allocated cost of a row is the recorded
  cost of its order times (the revenue of the row divided by the total revenue of the
  order) when that total is positive, and 0.0 otherwise; in particular it is 0.0
  whenever the total is 0, whatever the cost. For two line items of revenue 60 and 40
  and order cost 10 the allocated costs are 6.0 and 4.0, and their sum is 10.0.
\<close>

theorem cost_allocation:
  assumes "first_pass fromiso sales pass1_init = Inr st"
  shows "\<exists>rows. second_pass st (sales_filtered st) = Inr rows
     \<and> map row_cells rows = working_set fromiso sales
     \<and> (\<forall>i < length rows.
          (let r = working_set fromiso sales ! i;
               total = order_total fromiso sales (order_number_of r);
               cost = (case order_cost st (order_number_of r) of None \<Rightarrow> Fin 0 | Some c \<Rightarrow> c)
           in row_revenue_gbp (rows ! i) = revenue_of r
              \<and> (float_pos total \<longrightarrow>
                   (\<exists>share. float_truediv (revenue_of r) total = Inr share
                      \<and> row_cost_alloc_usd (rows ! i) = float_mul cost share))
              \<and> (\<not> float_pos total \<longrightarrow> row_cost_alloc_usd (rows ! i) = Fin 0)
              \<and> (total = Fin 0 \<longrightarrow> row_cost_alloc_usd (rows ! i) = Fin 0)))
     \<and> allocated_costs (\<lambda>_. None) sales_60_40 = Inr [Fin 6, Fin 4]
     \<and> float_add (Fin 6) (Fin 4) = Fin 10
     \<and> allocated_costs (\<lambda>_. None) sales_zero_total = Inr [Fin 0, Fin 0]"
proof -
  let ?ws = "working_set fromiso sales"
  let ?rows = "map (mk_arow st) (sales_filtered st)"
  have sf: "sales_filtered st = map (mk_frow fromiso) ?ws"
    using first_pass_sales_filtered[OF assms] by (simp add: pass1_init_def)
  have 1: "second_pass st (sales_filtered st) = Inr ?rows" by (rule second_pass_eq)
  have 2: "map row_cells ?rows = ?ws"
    by (simp add: sf mk_arow_def mk_frow_def comp_def)
  have 3: "\<forall>i < length ?rows.
          (let r = ?ws ! i;
               total = order_total fromiso sales (order_number_of r);
               cost = (case order_cost st (order_number_of r) of None \<Rightarrow> Fin 0 | Some c \<Rightarrow> c)
           in row_revenue_gbp (?rows ! i) = revenue_of r
              \<and> (float_pos total \<longrightarrow>
                   (\<exists>share. float_truediv (revenue_of r) total = Inr share
                      \<and> row_cost_alloc_usd (?rows ! i) = float_mul cost share))
              \<and> (\<not> float_pos total \<longrightarrow> row_cost_alloc_usd (?rows ! i) = Fin 0)
              \<and> (total = Fin 0 \<longrightarrow> row_cost_alloc_usd (?rows ! i) = Fin 0))"
  proof (intro allI impI)
    fix i assume "i < length ?rows"
    then have i: "i < length ?ws" by (simp add: sf)
    have a: "row_cost_alloc_usd (?rows ! i) = alloc_of st (mk_frow fromiso (?ws ! i))"
      using i by (simp add: sf mk_arow_def)
    have b: "row_revenue_gbp (?rows ! i) = revenue_of (?ws ! i)"
      using i by (simp add: sf mk_arow_def mk_frow_def)
    show "let r = ?ws ! i;
               total = order_total fromiso sales (order_number_of r);
               cost = (case order_cost st (order_number_of r) of None \<Rightarrow> Fin 0 | Some c \<Rightarrow> c)
           in row_revenue_gbp (?rows ! i) = revenue_of r
              \<and> (float_pos total \<longrightarrow>
                   (\<exists>share. float_truediv (revenue_of r) total = Inr share
                      \<and> row_cost_alloc_usd (?rows ! i) = float_mul cost share))
              \<and> (\<not> float_pos total \<longrightarrow> row_cost_alloc_usd (?rows ! i) = Fin 0)
              \<and> (total = Fin 0 \<longrightarrow> row_cost_alloc_usd (?rows ! i) = Fin 0)"
      unfolding a b alloc_of_working_row[OF assms] Let_def
      using float_truediv_pos[of "order_total fromiso sales (order_number_of (?ws ! i))" "revenue_of (?ws ! i)"]
      by auto
  qed
  from 1 2 3 allocation_examples show ?thesis by blast
qed

lemma first_pass_60_40: "\<not> isl (first_pass (\<lambda>_. None) sales_60_40 pass1_init)"
  by code_simp

theorem cost_allocation_witness:
  "\<exists>st rows. first_pass (\<lambda>_. None) sales_60_40 pass1_init = Inr st
     \<and> second_pass st (sales_filtered st) = Inr rows
     \<and> length rows = 2
     \<and> row_cost_alloc_usd (rows ! 0) = Fin 6"
proof -
  let ?f = "\<lambda>_::string. None :: pydate option"
  from first_pass_60_40 obtain st where st: "first_pass ?f sales_60_40 pass1_init = Inr st"
    by (cases "first_pass ?f sales_60_40 pass1_init") auto
  from cost_allocation[OF st] obtain rows where
    sp: "second_pass st (sales_filtered st) = Inr rows" and
    cells: "map row_cells rows = working_set ?f sales_60_40" and
    alloc: "\<forall>i < length rows.
          (let r = working_set ?f sales_60_40 ! i;
               total = order_total ?f sales_60_40 (order_number_of r);
               cost = (case order_cost st (order_number_of r) of None \<Rightarrow> Fin 0 | Some c \<Rightarrow> c)
           in row_revenue_gbp (rows ! i) = revenue_of r
              \<and> (float_pos total \<longrightarrow>
                   (\<exists>share. float_truediv (revenue_of r) total = Inr share
                      \<and> row_cost_alloc_usd (rows ! i) = float_mul cost share))
              \<and> (\<not> float_pos total \<longrightarrow> row_cost_alloc_usd (rows ! i) = Fin 0)
              \<and> (total = Fin 0 \<longrightarrow> row_cost_alloc_usd (rows ! i) = Fin 0))"
    by blast
  have "length (working_set ?f sales_60_40) = 2" by code_simp
  with cells have len: "length rows = 2" by (metis length_map)
  have on: "order_number_of (working_set ?f sales_60_40 ! 0) = ''SO-1''" by code_simp
  have total: "order_total ?f sales_60_40 ''SO-1'' = Fin 100" by code_simp
  have rev: "revenue_of (working_set ?f sales_60_40 ! 0) = Fin 60" by code_simp
  have "first_nonzero_cost ?f sales_60_40 ''SO-1'' = Some (Fin 10)" by code_simp
  with first_pass_order_cost[OF st, of "''SO-1''"]
  have cost: "order_cost st ''SO-1'' = Some (Fin 10)" by (simp add: pass1_init_def)
  have share: "float_truediv (Fin 60) (Fin 100) = Inr (fl (3 / 5))" by simp
  have mul: "float_mul (Fin 10) (fl (3 / 5)) = Fin 6" by code_simp
  from len have l0: "0 < length rows" by simp
  from alloc[rule_format, OF l0] have
    "float_pos (Fin 100) \<longrightarrow>
       (\<exists>share. float_truediv (Fin 60) (Fin 100) = Inr share
          \<and> row_cost_alloc_usd (rows ! 0) = float_mul (Fin 10) share)"
    unfolding Let_def on total rev cost by simp
  with share mul have "row_cost_alloc_usd (rows ! 0) = Fin 6" by auto
  with st sp len show ?thesis by blast
qed

text \<open>
  Claim C3. For an order with a non-empty trimmed order number, the recorded cost is
  the first nonzero cost among the line items of the order in the working set, in
  input order: line items with cost zero before it do not set the cost, and nothing
  after it changes the cost. When no line item has a nonzero cost, none is recorded.
\<close>

theorem first_nonzero_cost_wins:
  assumes "first_pass fromiso sales pass1_init = Inr st" and "on \<noteq> []"
  shows "order_cost st on = first_nonzero_cost fromiso sales on
     \<and> (\<forall>pre r post.
           order_lines fromiso sales on = pre @ r # post
           \<and> (\<forall>p \<in> set pre. \<not> float_truthy (cost_of p)) \<and> float_truthy (cost_of r)
           \<longrightarrow> order_cost st on = Some (cost_of r))
     \<and> ((\<forall>r \<in> set (order_lines fromiso sales on). \<not> float_truthy (cost_of r))
           \<longrightarrow> order_cost st on = None)"
proof -
  have 1: "order_cost st on = first_nonzero_cost fromiso sales on"
    using first_pass_order_cost[OF assms(1), of on] assms(2) by (simp add: pass1_init_def)
  have 2: "\<forall>pre r post.
           order_lines fromiso sales on = pre @ r # post
           \<and> (\<forall>p \<in> set pre. \<not> float_truthy (cost_of p)) \<and> float_truthy (cost_of r)
           \<longrightarrow> first_nonzero_cost fromiso sales on = Some (cost_of r)"
  proof (intro allI impI)
    fix pre r post
    assume h: "order_lines fromiso sales on = pre @ r # post
           \<and> (\<forall>p \<in> set pre. \<not> float_truthy (cost_of p)) \<and> float_truthy (cost_of r)"
    then have "filter (\<lambda>r. float_truthy (cost_of r)) pre = []" by (simp add: filter_empty_conv)
    with h show "first_nonzero_cost fromiso sales on = Some (cost_of r)"
      by (simp add: first_nonzero_cost_def)
  qed
  have 3: "(\<forall>r \<in> set (order_lines fromiso sales on). \<not> float_truthy (cost_of r))
           \<longrightarrow> first_nonzero_cost fromiso sales on = None"
  proof
    assume "\<forall>r \<in> set (order_lines fromiso sales on). \<not> float_truthy (cost_of r)"
    then have "filter (\<lambda>r. float_truthy (cost_of r)) (order_lines fromiso sales on) = []"
      by (simp add: filter_empty_conv)
    then show "first_nonzero_cost fromiso sales on = None" by (simp add: first_nonzero_cost_def)
  qed
  from 1 2 3 show ?thesis by simp
qed

lemma first_pass_costs: "\<not> isl (first_pass (\<lambda>_. None) sales_costs pass1_init)"
  by code_simp

theorem first_nonzero_cost_wins_witness:
  "\<exists>st. first_pass (\<lambda>_. None) sales_costs pass1_init = Inr st
     \<and> order_cost st ''SO-3'' = Some (Fin 7)"
proof -
  let ?f = "\<lambda>_::string. None :: pydate option"
  from first_pass_costs obtain st where st: "first_pass ?f sales_costs pass1_init = Inr st"
    by (cases "first_pass ?f sales_costs pass1_init") auto
  have ne: "''SO-3'' \<noteq> []" by simp
  have "first_nonzero_cost ?f sales_costs ''SO-3'' = Some (Fin 7)" by code_simp
  with first_nonzero_cost_wins[OF st ne] have "order_cost st ''SO-3'' = Some (Fin 7)" by simp
  with st show ?thesis by blast
qed

text \<open>
  Claim C2. A sales record whose date parses to no date or to a year outside 2019 to
  2025 contributes to no output: the files written (and the exception, if any) are
  the same with and without such records. The rows of the working set are exactly the
  records with a year from 2019 to 2025.
\<close>

theorem dropped_records_do_not_contribute:
  "process fromiso sales inventory =
     process fromiso (filter (\<lambda>r. \<not> dropped fromiso r) sales) inventory
   \<and> (dropped fromiso r \<longrightarrow>
        process fromiso (before @ r # after) inventory = process fromiso (before @ after) inventory)
   \<and> (first_pass fromiso sales pass1_init = Inr st \<longrightarrow>
        map f_cells (sales_filtered st) = working_set fromiso sales
        \<and> (\<forall>row \<in> set (sales_filtered st). 2019 \<le> f_parsed_year row \<and> f_parsed_year row \<le> 2025))"
proof -
  have p: "\<And>xs. process fromiso xs inventory =
      process fromiso (filter (\<lambda>r. \<not> dropped fromiso r) xs) inventory"
    unfolding process_def first_pass_filter_dropped by (rule refl)
  have 2: "dropped fromiso r \<longrightarrow>
        process fromiso (before @ r # after) inventory = process fromiso (before @ after) inventory"
  proof
    assume d: "dropped fromiso r"
    have "process fromiso (before @ r # after) inventory =
        process fromiso (filter (\<lambda>r. \<not> dropped fromiso r) (before @ r # after)) inventory"
      by (rule p)
    also have "\<dots> = process fromiso (filter (\<lambda>r. \<not> dropped fromiso r) (before @ after)) inventory"
      using d by simp
    also have "\<dots> = process fromiso (before @ after) inventory"
      by (rule p[symmetric])
    finally show "process fromiso (before @ r # after) inventory = process fromiso (before @ after) inventory" .
  qed
  have 3: "first_pass fromiso sales pass1_init = Inr st \<longrightarrow>
        map f_cells (sales_filtered st) = working_set fromiso sales
        \<and> (\<forall>row \<in> set (sales_filtered st). 2019 \<le> f_parsed_year row \<and> f_parsed_year row \<le> 2025)"
  proof
    assume "first_pass fromiso sales pass1_init = Inr st"
    from first_pass_sales_filtered[OF this]
    have sf: "sales_filtered st = map (mk_frow fromiso) (working_set fromiso sales)"
      by (simp add: pass1_init_def)
    have a: "map f_cells (sales_filtered st) = working_set fromiso sales"
      by (simp add: sf mk_frow_def comp_def)
    have b: "\<forall>row \<in> set (sales_filtered st). 2019 \<le> f_parsed_year row \<and> f_parsed_year row \<le> 2025"
      by (auto simp: sf working_set_def mk_frow_def in_window_def split: option.splits)
    from a b show "map f_cells (sales_filtered st) = working_set fromiso sales
        \<and> (\<forall>row \<in> set (sales_filtered st). 2019 \<le> f_parsed_year row \<and> f_parsed_year row \<le> 2025)" ..
  qed
  from p[of sales] 2 3 show ?thesis by blast
qed

lemma dropped_examples:
  "dropped fromiso (sales_row [Some ''2018-12-31''])"
  "dropped fromiso (sales_row [Some ''2026-01-01''])"
  "dropped fromiso (sales_row [Some ''  ''])"
  "dropped fromiso (sales_row [])"
  "\<not> dropped fromiso (sales_row [Some ''2019-01-01''])"
  "\<not> dropped fromiso (sales_row [Some ''2025-12-31''])"
  by code_simp+

theorem dropped_records_do_not_contribute_witness:
  "process (\<lambda>_. None) (row_of_2018 # tl sales_costs) [] = process (\<lambda>_. None) (tl sales_costs) []"
proof -
  have d: "dropped (\<lambda>_. None) row_of_2018" by code_simp
  from dropped_records_do_not_contribute[of "\<lambda>_. None" "[]" "[]" row_of_2018 "[]" "tl sales_costs"] d
  show ?thesis by simp
qed


subsection \<open>The aggregation loops and the files of a run\<close>



lemma inventory_step_Inr:
  "\<exists>totals'. inventory_step row totals = Inr totals'
     \<and> (distinct (map fst totals) \<longrightarrow> distinct (map fst totals'))"
  by (auto simp: inventory_step_def Let_def to_float_cell distinct_update)

lemma inventory_loop_Inr:
  "distinct (map fst totals) \<Longrightarrow>
   \<exists>totals'. inventory_loop rows totals = Inr totals' \<and> distinct (map fst totals')"
proof (induction rows arbitrary: totals)
  case Nil
  then show ?case by simp
next
  case (Cons row rows)
  from inventory_step_Inr[of row totals] Cons.prems obtain t where
    t: "inventory_step row totals = Inr t" "distinct (map fst t)" by blast
  from Cons.IH[OF t(2)] t(1) show ?case by simp
qed

lemma subset_insert_step:
  "A \<subseteq> insert k B \<Longrightarrow> C \<subseteq> A \<union> R \<Longrightarrow> C \<subseteq> B \<union> insert k R"
  by blast

lemma part_step_Inr:
  "\<exists>groups. part_step row part_groups = Inr groups
     \<and> (distinct (map fst part_groups) \<longrightarrow> distinct (map fst groups))
     \<and> fst ` set groups \<subseteq> insert (part_key (row_cells row)) (fst ` set part_groups)"
  by (auto simp: part_step_def part_key_def Let_def to_float_cell distinct_update dom_update)

lemma part_loop_Inr:
  "distinct (map fst part_groups) \<Longrightarrow>
   \<exists>groups. part_loop rows part_groups = Inr groups \<and> distinct (map fst groups)
     \<and> fst ` set groups \<subseteq> fst ` set part_groups \<union> part_key ` row_cells ` set rows"
proof (induction rows arbitrary: part_groups)
  case Nil
  then show ?case by simp
next
  case (Cons row rows)
  from part_step_Inr[of row part_groups] Cons.prems obtain g where
    g: "part_step row part_groups = Inr g" "distinct (map fst g)"
       "fst ` set g \<subseteq> insert (part_key (row_cells row)) (fst ` set part_groups)" by blast
  from Cons.IH[OF g(2)] obtain groups where
    gs: "part_loop rows g = Inr groups" "distinct (map fst groups)"
        "fst ` set groups \<subseteq> fst ` set g \<union> part_key ` row_cells ` set rows" by blast
  have b: "part_key ` row_cells ` set (row # rows) =
      insert (part_key (row_cells row)) (part_key ` row_cells ` set rows)"
    by (simp only: list.set image_insert)
  have c: "fst ` set groups \<subseteq> fst ` set part_groups \<union> part_key ` row_cells ` set (row # rows)"
    unfolding b using g(3) gs(3) by (rule subset_insert_step)
  have d: "part_loop (row # rows) part_groups = Inr groups"
    by (simp add: g(1) gs(1))
  from d gs(2) c show ?case by blast
qed

lemma customer_step_Inr:
  "\<exists>groups. customer_step row customer_groups = Inr groups
     \<and> (distinct (map fst customer_groups) \<longrightarrow> distinct (map fst groups))"
  by (auto simp: customer_step_def Let_def to_float_cell distinct_update)

lemma customer_loop_Inr:
  "distinct (map fst customer_groups) \<Longrightarrow>
   \<exists>groups. customer_loop rows customer_groups = Inr groups \<and> distinct (map fst groups)"
proof (induction rows arbitrary: customer_groups)
  case Nil
  then show ?case by simp
next
  case (Cons row rows)
  from customer_step_Inr[of row customer_groups] Cons.prems obtain g where
    g: "customer_step row customer_groups = Inr g" "distinct (map fst g)" by blast
  from Cons.IH[OF g(2)] g(1) show ?case by simp
qed



lemma inventory_step_eq:
  "inventory_step row totals =
     Inr (if fst (inventory_key row) \<noteq> [] \<and> snd (inventory_key row) \<noteq> []
          then AList.update (inventory_key row)
                 (float_add (get_default totals (inventory_key row) (Fin 0)) (onhand_of row)) totals
          else totals)"
  by (simp add: inventory_step_def inventory_key_def onhand_of_def Let_def to_float_cell)

lemma get_default_update:
  "get_default (AList.update k v al) k' d = (if k' = k then v else get_default al k' d)"
  by (simp add: get_default_def update_conv')

lemma inventory_loop_total:
  assumes "inventory_loop inventory totals0 = Inr totals" and "fst key \<noteq> []" and "snd key \<noteq> []"
  shows "get_default totals key (Fin 0) =
     foldl float_add (get_default totals0 key (Fin 0))
       (map onhand_of (filter (\<lambda>r. inventory_key r = key) inventory))"
  using assms(1)
proof (induction inventory arbitrary: totals0)
  case Nil
  then show ?case by simp
next
  case (Cons row rows)
  let ?t1 = "if fst (inventory_key row) \<noteq> [] \<and> snd (inventory_key row) \<noteq> []
          then AList.update (inventory_key row)
                 (float_add (get_default totals0 (inventory_key row) (Fin 0)) (onhand_of row)) totals0
          else totals0"
  from Cons.prems have "inventory_loop rows ?t1 = Inr totals"
    by (simp add: inventory_step_eq)
  from Cons.IH[OF this] show ?case
    using assms(2,3) by (auto simp: get_default_update)
qed

lemma part_step_nonempty:
  assumes "part_step row part_groups = Inr groups"
  shows "fst ` set groups \<subseteq> fst ` set part_groups \<union> {k. fst k \<noteq> [] \<and> snd k \<noteq> []}"
proof (cases "get_stripped (row_cells row) ''Site'' = [] \<or> get_stripped (row_cells row) ''Part Number'' = []")
  case True
  with assms have "groups = part_groups" by (auto simp: part_step_def Let_def)
  then show ?thesis by blast
next
  case False
  with assms obtain g where
    "groups = AList.update (get_stripped (row_cells row) ''Site'', get_stripped (row_cells row) ''Part Number'') g part_groups"
    by (auto simp: part_step_def Let_def to_float_cell)
  then have "fst ` set groups =
     {(get_stripped (row_cells row) ''Site'', get_stripped (row_cells row) ''Part Number'')} \<union> fst ` set part_groups"
    by (simp only: dom_update)
  with False show ?thesis by auto
qed

lemma subset_union_step: "A \<subseteq> B \<union> K \<Longrightarrow> C \<subseteq> A \<union> K \<Longrightarrow> C \<subseteq> B \<union> K"
  by blast

lemma part_loop_nonempty:
  "part_loop rows part_groups = Inr groups \<Longrightarrow>
   fst ` set groups \<subseteq> fst ` set part_groups \<union> {k. fst k \<noteq> [] \<and> snd k \<noteq> []}"
proof (induction rows arbitrary: part_groups)
  case Nil
  then show ?case by simp
next
  case (Cons row rows)
  from Cons.prems(1) obtain g where
    g: "part_step row part_groups = Inr g" "part_loop rows g = Inr groups"
    by (auto split: sum.splits)
  from part_step_nonempty[OF g(1)] Cons.IH[OF g(2)] show ?case
    by (rule subset_union_step)
qed

text \<open>The four files of a run whose first loop completes.\<close>

lemma process_Inr:
  assumes "first_pass fromiso sales pass1_init = Inr st"
  shows "\<exists>totals part_groups customer_groups.
      inventory_loop inventory [] = Inr totals \<and> distinct (map fst totals)
    \<and> part_loop (map (mk_arow st) (sales_filtered st)) [] = Inr part_groups
    \<and> distinct (map fst part_groups)
    \<and> fst ` set part_groups \<subseteq> part_key ` set (working_set fromiso sales)
    \<and> customer_loop (map (mk_arow st) (sales_filtered st)) [] = Inr customer_groups
    \<and> distinct (map fst customer_groups)
    \<and> process fromiso sales inventory =
        ([\<lparr>file_name = ''Inventory_Normalized.csv'', file_header = inventory_header,
           file_rows = inventory_output_rows totals\<rparr>,
          \<lparr>file_name = ''part_level_pareto.csv'', file_header = part_header,
           file_rows = part_rows totals part_groups\<rparr>,
          \<lparr>file_name = ''customer_level_pareto.csv'', file_header = customer_header,
           file_rows = customer_rows customer_groups\<rparr>,
          \<lparr>file_name = ''customer_counts_by_site_year_part.csv'', file_header = count_header,
           file_rows = count_rows (count_loop (map (mk_arow st) (sales_filtered st)) [])\<rparr>],
         None)"
proof -
  let ?rows = "map (mk_arow st) (sales_filtered st)"
  from inventory_loop_Inr[of "[]" inventory] obtain totals where
    t: "inventory_loop inventory [] = Inr totals" "distinct (map fst totals)" by auto
  from part_loop_Inr[of "[]" ?rows] obtain pg where
    pg: "part_loop ?rows [] = Inr pg" "distinct (map fst pg)"
        "fst ` set pg \<subseteq> part_key ` row_cells ` set ?rows" by auto
  from customer_loop_Inr[of "[]" ?rows] obtain cg where
    cg: "customer_loop ?rows [] = Inr cg" "distinct (map fst cg)" by auto
  have sf: "sales_filtered st = map (mk_frow fromiso) (working_set fromiso sales)"
    using first_pass_sales_filtered[OF assms] by (simp add: pass1_init_def)
  have "row_cells ` set ?rows = set (working_set fromiso sales)"
    by (simp add: sf image_image mk_arow_def mk_frow_def)
  with pg(3) have keys: "fst ` set pg \<subseteq> part_key ` set (working_set fromiso sales)" by simp
  have "process fromiso sales inventory =
        ([\<lparr>file_name = ''Inventory_Normalized.csv'', file_header = inventory_header,
           file_rows = inventory_output_rows totals\<rparr>,
          \<lparr>file_name = ''part_level_pareto.csv'', file_header = part_header,
           file_rows = part_rows totals pg\<rparr>,
          \<lparr>file_name = ''customer_level_pareto.csv'', file_header = customer_header,
           file_rows = customer_rows cg\<rparr>,
          \<lparr>file_name = ''customer_counts_by_site_year_part.csv'', file_header = count_header,
           file_rows = count_rows (count_loop ?rows [])\<rparr>],
         None)"
    by (simp add: process_def assms t(1) second_pass_eq pg(1) cg(1) Let_def)
  with t pg(1,2) keys cg show ?thesis by blast
qed

lemma process_None_first_pass:
  "process fromiso sales inventory = (files, None) \<Longrightarrow>
   \<exists>st. first_pass fromiso sales pass1_init = Inr st"
  by (cases "first_pass fromiso sales pass1_init")
     (auto simp: process_def Let_def split: sum.splits)



lemma row_key2_part_row: "row_key2 (part_row totals kg) = fst kg"
  by (cases kg) (auto simp: part_row_def Let_def)




lemma onhand_part_row:
  "part_row totals kg ! 11 = CFloat (py_round2 (get_default totals (fst kg) (Fin 0)))"
  by (cases kg) (auto simp: part_row_def Let_def)

lemma ex_main:
  "main fromiso ex_shared_strings ex_sales_sheet ex_inventory_sheet =
     ([ex_inventory_file, ex_part_file, ex_customer_file, ex_count_file], None)"
  by code_simp

lemma part_rows_lookup:
  assumes "row \<in> set (part_rows totals part_groups)"
  shows "row ! 11 = CFloat (py_round2 (get_default totals (row_key2 row) (Fin 0)))
       \<and> row_key2 row \<in> fst ` set part_groups"
proof -
  from assms obtain kg where kg: "kg \<in> set part_groups" "row = part_row totals kg"
    by (auto simp: part_rows_def)
  then show ?thesis by (simp add: onhand_part_row row_key2_part_row)
qed

lemma py_round2_zero: "py_round2 (Fin 0) = Fin 0"
  by (simp add: round_half_even_def fl_def)

text \<open>
  Claim C4. For the example workbook (two sales rows of one order with cost 30 for
  site S1 and part P1, revenue 100 and quantity 10 for an internal customer, revenue
  50 and quantity 5 for an external one, and one inventory row with 20 on hand) the
  part-level file has exactly one data row, for (S1, P1), with revenue 150, units 15,
  customer count 2, on-hand quantity 20 and allocated cost 30. In every completed
  run, the on-hand quantity of a part-level row is the rounded inventory total of the
  row's key (the sum of the on-hand quantities of the inventory records of that key),
  0.0 when the inventory has no such key, and the key of every part-level row is the
  key of a sales record of the working set: a key that only the inventory has gives
  no row.
\<close>

theorem part_level_report:
  "main fromiso ex_shared_strings ex_sales_sheet ex_inventory_sheet =
     ([ex_inventory_file, ex_part_file, ex_customer_file, ex_count_file], None)
   \<and> (process fromiso sales inventory = (files, None) \<longrightarrow>
        (\<exists>totals. inventory_loop inventory [] = Inr totals
           \<and> (\<forall>row \<in> set (file_rows (files ! 1)).
                 row ! 11 = CFloat (py_round2 (get_default totals (row_key2 row) (Fin 0)))
               \<and> row ! 11 = CFloat (py_round2 (inventory_total inventory (row_key2 row)))
               \<and> (map_of totals (row_key2 row) = None \<longrightarrow> row ! 11 = CFloat (Fin 0))
               \<and> row_key2 row \<in> part_key ` set (working_set fromiso sales))
           \<and> (\<forall>key. key \<notin> part_key ` set (working_set fromiso sales)
                 \<longrightarrow> key \<notin> row_key2 ` set (file_rows (files ! 1)))))"
proof -
  have general: "process fromiso sales inventory = (files, None) \<longrightarrow>
        (\<exists>totals. inventory_loop inventory [] = Inr totals
           \<and> (\<forall>row \<in> set (file_rows (files ! 1)).
                 row ! 11 = CFloat (py_round2 (get_default totals (row_key2 row) (Fin 0)))
               \<and> row ! 11 = CFloat (py_round2 (inventory_total inventory (row_key2 row)))
               \<and> (map_of totals (row_key2 row) = None \<longrightarrow> row ! 11 = CFloat (Fin 0))
               \<and> row_key2 row \<in> part_key ` set (working_set fromiso sales))
           \<and> (\<forall>key. key \<notin> part_key ` set (working_set fromiso sales)
                 \<longrightarrow> key \<notin> row_key2 ` set (file_rows (files ! 1))))"
  proof
    assume p: "process fromiso sales inventory = (files, None)"
    from process_None_first_pass[OF p] obtain st where
      st: "first_pass fromiso sales pass1_init = Inr st" ..
    from process_Inr[OF st, of inventory] p obtain totals part_groups where
      t: "inventory_loop inventory [] = Inr totals" and
      pl: "part_loop (map (mk_arow st) (sales_filtered st)) [] = Inr part_groups" and
      keys: "fst ` set part_groups \<subseteq> part_key ` set (working_set fromiso sales)" and
      f: "file_rows (files ! 1) = part_rows totals part_groups"
      by auto
    from part_loop_nonempty[OF pl]
    have ne: "\<forall>k \<in> fst ` set part_groups. fst k \<noteq> [] \<and> snd k \<noteq> []" by auto
    have rows: "\<forall>row \<in> set (file_rows (files ! 1)).
                 row ! 11 = CFloat (py_round2 (get_default totals (row_key2 row) (Fin 0)))
               \<and> row ! 11 = CFloat (py_round2 (inventory_total inventory (row_key2 row)))
               \<and> (map_of totals (row_key2 row) = None \<longrightarrow> row ! 11 = CFloat (Fin 0))
               \<and> row_key2 row \<in> part_key ` set (working_set fromiso sales)"
    proof
      fix row assume "row \<in> set (file_rows (files ! 1))"
      then have r: "row \<in> set (part_rows totals part_groups)" unfolding f .
      from part_rows_lookup[OF r] ne
      have "fst (row_key2 row) \<noteq> []" "snd (row_key2 row) \<noteq> []" by auto
      from inventory_loop_total[OF t this]
      have sum: "get_default totals (row_key2 row) (Fin 0) = inventory_total inventory (row_key2 row)"
        by (simp add: inventory_total_def get_default_def[of "[]"])
      from part_rows_lookup[OF r]
      have a: "row ! 11 = CFloat (py_round2 (get_default totals (row_key2 row) (Fin 0)))"
        and k: "row_key2 row \<in> fst ` set part_groups" by auto
      from a have b: "row ! 11 = CFloat (py_round2 (inventory_total inventory (row_key2 row)))"
        by (simp only: sum)
      from a have c: "map_of totals (row_key2 row) = None \<longrightarrow> row ! 11 = CFloat (Fin 0)"
        by (simp add: get_default_def py_round2_zero del: py_round2.simps)
      from k keys have d: "row_key2 row \<in> part_key ` set (working_set fromiso sales)" by blast
      from a b c d
      show "row ! 11 = CFloat (py_round2 (get_default totals (row_key2 row) (Fin 0)))
               \<and> row ! 11 = CFloat (py_round2 (inventory_total inventory (row_key2 row)))
               \<and> (map_of totals (row_key2 row) = None \<longrightarrow> row ! 11 = CFloat (Fin 0))
               \<and> row_key2 row \<in> part_key ` set (working_set fromiso sales)"
        by blast
    qed
    then have "\<forall>key. key \<notin> part_key ` set (working_set fromiso sales)
                 \<longrightarrow> key \<notin> row_key2 ` set (file_rows (files ! 1))"
      by blast
    with t rows show "\<exists>totals. inventory_loop inventory [] = Inr totals
           \<and> (\<forall>row \<in> set (file_rows (files ! 1)).
                 row ! 11 = CFloat (py_round2 (get_default totals (row_key2 row) (Fin 0)))
               \<and> row ! 11 = CFloat (py_round2 (inventory_total inventory (row_key2 row)))
               \<and> (map_of totals (row_key2 row) = None \<longrightarrow> row ! 11 = CFloat (Fin 0))
               \<and> row_key2 row \<in> part_key ` set (working_set fromiso sales))
           \<and> (\<forall>key. key \<notin> part_key ` set (working_set fromiso sales)
                 \<longrightarrow> key \<notin> row_key2 ` set (file_rows (files ! 1)))"
      by blast
  qed
  from ex_main general show ?thesis by (rule conjI)
qed

lemma part_rows_60_40:
  "map row_key2 (file_rows (fst (process (\<lambda>_. None) sales_60_40 []) ! 1)) =
     [(''S1'', ''P1''), (''S1'', ''P2'')]"
  by code_simp

theorem part_level_report_witness:
  "snd (process (\<lambda>_. None) sales_60_40 []) = None
   \<and> map row_key2 (file_rows (fst (process (\<lambda>_. None) sales_60_40 []) ! 1)) =
       [(''S1'', ''P1''), (''S1'', ''P2'')]
   \<and> list_all (\<lambda>row. row ! 11 = CFloat (Fin 0))
       (file_rows (fst (process (\<lambda>_. None) sales_60_40 []) ! 1))"
proof -
  let ?f = "\<lambda>_::string. None :: pydate option"
  from first_pass_60_40 obtain st where st: "first_pass ?f sales_60_40 pass1_init = Inr st"
    by (cases "first_pass ?f sales_60_40 pass1_init") auto
  from process_Inr[OF st, of "[]"] have n: "snd (process ?f sales_60_40 []) = None" by auto
  then have p: "process ?f sales_60_40 [] = (fst (process ?f sales_60_40 []), None)"
    by (metis prod.collapse)
  from part_level_report[of ?f sales_60_40 "[]" "fst (process ?f sales_60_40 [])"] p
  obtain totals where
    t: "inventory_loop [] [] = Inr totals" and
    r: "\<forall>row \<in> set (file_rows (fst (process ?f sales_60_40 []) ! 1)).
          row ! 11 = CFloat (py_round2 (get_default totals (row_key2 row) (Fin 0)))"
    by blast
  from t have "totals = []" by simp
  with r have "list_all (\<lambda>row. row ! 11 = CFloat (Fin 0))
       (file_rows (fst (process ?f sales_60_40 []) ! 1))"
    by (simp add: list_all_iff get_default_def py_round2_zero del: py_round2.simps)
  with n part_rows_60_40 show ?thesis by blast
qed

subsection \<open>Report writer\<close>

text \<open>The order of the keys is the order of Python's tuples of \<open>str\<close> and \<open>int\<close>.\<close>

lemma key_order_examples:
  "(''S1'', ''P9'') < (''S2'', ''P1'')"
  "(''S1'', ''P10'') < (''S1'', ''P2'')"
  "(''S1'', ''P1'') < (''S1'', ''P10'')"
  "(''S1'', ''Z'') < (''S1'', ''a'')"
  "(''S1'', 2019::int, ''P2'') < (''S1'', 2020, ''P1'')"
  by code_simp+



end
